theory Spec2Isabelle
  imports Complex_Main "HOL-Library.Sublist"
begin

section \<open>Python values shared by the modules\<close>

text \<open>
  Exceptions are values: a function of the source that can raise returns
  \<open>py_exception + 'a\<close>, with \<open>Inl\<close> the exception that escapes it.
\<close>

datatype py_exception =
    ValueError
  | AttributeError
  | TypeError
  | SQLAlchemyError
  | OtherException string

type_synonym 'a result = "py_exception + 'a"

subsection \<open>Floats\<close>

text \<open>
  A Python \<open>float\<close> is an IEEE 754 double: a finite value, which is a rational
  number, an infinity or a NaN. The sign of zero is not kept, as nothing here
  observes it.
\<close>

datatype double = Finite rat | PosInf | NegInf | NaN

text \<open>The number of binary digits of a natural number.\<close>

fun bit_length :: "nat \<Rightarrow> nat" where
  "bit_length n = (if n = 0 then 0 else Suc (bit_length (n div 2)))"

definition pow2 :: "int \<Rightarrow> rat" where
  "pow2 e = (if e \<ge> 0 then 2 ^ nat e else 1 / 2 ^ nat (- e))"

text \<open>For a positive \<open>x\<close>, the exponent \<open>e\<close> with \<open>2 ^ e \<le> x < 2 ^ (e + 1)\<close>.\<close>

definition floor_log2 :: "rat \<Rightarrow> int" where
  "floor_log2 x =
     (if x \<ge> 1 then int (bit_length (nat \<lfloor>x\<rfloor>)) - 1
      else - int (bit_length (nat (\<lceil>1 / x\<rceil> - 1))))"

text \<open>Rounding to the nearest integer, a tie to the even one.\<close>

definition round_half_even :: "rat \<Rightarrow> int" where
  "round_half_even q =
     (let f = \<lfloor>q\<rfloor>; r = q - of_int f
      in if r < 1 / 2 then f
         else if r > 1 / 2 then f + 1
         else if even f then f else f + 1)"

text \<open>
  The double nearest to a rational number, as every float operation and \<open>float(s)\<close>
  round their exact result: 53 significant bits, the exponent not below that of the
  subnormal numbers, a tie to the even significand, and an infinity from
  \<open>2 ^ 1024\<close> on.
\<close>

definition round_double :: "rat \<Rightarrow> double" where
  "round_double x =
     (if x = 0 then Finite 0
      else
        (let a = \<bar>x\<bar>;
             e = max (floor_log2 a) (- 1022)
         in if e > 1023 then (if x > 0 then PosInf else NegInf)
            else
              (let ulp = pow2 (e - 52);
                   n = round_half_even (a / ulp)
               in if e = 1023 \<and> n \<ge> 2 ^ 53 then (if x > 0 then PosInf else NegInf)
                  else Finite (if x > 0 then of_int n * ulp else - (of_int n * ulp)))))"

text \<open>A value that is a double: rounding leaves it as it is.\<close>

definition is_double :: "double \<Rightarrow> bool" where
  "is_double d = (case d of Finite x \<Rightarrow> round_double x = Finite x | _ \<Rightarrow> True)"

text \<open>\<open>a - b\<close>, \<open>abs(a)\<close>, \<open>a > b\<close>, \<open>a < b\<close> and \<open>a / 2\<close> on floats.\<close>

fun dsub :: "double \<Rightarrow> double \<Rightarrow> double" where
  "dsub (Finite x) (Finite y) = round_double (x - y)"
| "dsub NaN _ = NaN"
| "dsub _ NaN = NaN"
| "dsub PosInf PosInf = NaN"
| "dsub NegInf NegInf = NaN"
| "dsub PosInf _ = PosInf"
| "dsub NegInf _ = NegInf"
| "dsub (Finite x) PosInf = NegInf"
| "dsub (Finite x) NegInf = PosInf"

fun dabs :: "double \<Rightarrow> double" where
  "dabs (Finite x) = Finite \<bar>x\<bar>"
| "dabs PosInf = PosInf"
| "dabs NegInf = PosInf"
| "dabs NaN = NaN"

fun dgt :: "double \<Rightarrow> double \<Rightarrow> bool" where
  "dgt NaN _ = False"
| "dgt _ NaN = False"
| "dgt (Finite x) (Finite y) = (x > y)"
| "dgt PosInf PosInf = False"
| "dgt PosInf _ = True"
| "dgt NegInf _ = False"
| "dgt (Finite x) PosInf = False"
| "dgt (Finite x) NegInf = True"

definition dlt :: "double \<Rightarrow> double \<Rightarrow> bool" where
  "dlt a b = dgt b a"

fun half :: "double \<Rightarrow> double" where
  "half (Finite x) = round_double (x / 2)"
| "half PosInf = PosInf"
| "half NegInf = NegInf"
| "half NaN = NaN"

text \<open>The builtins \<open>max(a, b)\<close> and \<open>min(a, b)\<close>: the first argument unless the second
  is greater, respectively smaller.\<close>

definition py_max :: "double \<Rightarrow> double \<Rightarrow> double" where
  "py_max a b = (if dgt b a then b else a)"

definition py_min :: "double \<Rightarrow> double \<Rightarrow> double" where
  "py_min a b = (if dlt b a then b else a)"

subsection \<open>Strings\<close>

text \<open>
  A \<open>str\<close> is the list of its code points; \<open>ascii\<close> writes one from an ASCII
  literal. \<open>\d\<close> in a pattern and the digits \<open>float(s)\<close> reads are the decimal
  digits of Unicode (category Nd, version 14.0.0 as in the \<open>unicodedata\<close> of
  Python 3.11): 66 runs of ten code points for the values 0 to 9, given here by the
  code point of each zero.
\<close>

type_synonym str = "nat list"

definition ascii :: "string \<Rightarrow> str" where
  "ascii s = map of_char s"

definition nd_zeros :: "nat list" where
  "nd_zeros =
     [48, 1632, 1776, 1984, 2406, 2534, 2662, 2790, 2918, 3046, 3174, 3302, 3430, 3558,
      3664, 3792, 3872, 4160, 4240, 6112, 6160, 6470, 6608, 6784, 6800, 6992, 7088, 7232,
      7248, 42528, 43216, 43264, 43472, 43504, 43600, 44016, 65296, 66720, 68912, 69734,
      69872, 69942, 70096, 70384, 70736, 70864, 71248, 71360, 71472, 71904, 72016, 72784,
      73040, 73120, 92768, 92864, 93008, 120782, 120792, 120802, 120812, 120822, 123200,
      123632, 125264, 130032]"

text \<open>The value of a decimal digit, \<open>None\<close> for any other code point.\<close>

definition decimal_value :: "nat \<Rightarrow> nat option" where
  "decimal_value c =
     (case find (\<lambda>z. z \<le> c \<and> c < z + 10) nd_zeros of
        None \<Rightarrow> None
      | Some z \<Rightarrow> Some (c - z))"

text \<open>The code points of the comma and the period.\<close>

definition comma :: nat where
  "comma = 44"

definition period :: nat where
  "period = 46"

section \<open>utils/helpers.py\<close>

subsection \<open>String primitives used by the helpers\<close>

definition is_digit :: "nat \<Rightarrow> bool" where
  "is_digit c = (decimal_value c \<noteq> None)"

definition digit_val :: "nat \<Rightarrow> nat" where
  "digit_val c = (case decimal_value c of None \<Rightarrow> 0 | Some v \<Rightarrow> v)"

text \<open>The number written by a string of decimal digits, most significant first.\<close>

definition digits_val :: "str \<Rightarrow> nat" where
  "digits_val ds = fold (\<lambda>c n. 10 * n + digit_val c) ds 0"

text \<open>
  \<open>float(s)\<close> on the strings that reach it in this module, which hold digits, commas
  and periods only: digits with at most one period and at least one digit are a
  number, read by the values of its digits and rounded to a double; everything else
  raises \<open>ValueError\<close>.
\<close>

definition py_float :: "str \<Rightarrow> double result" where
  "py_float s =
     (let ip = takeWhile is_digit s; rest = dropWhile is_digit s in
      case rest of
        [] \<Rightarrow> if ip = [] then Inl ValueError
              else Inr (round_double (of_nat (digits_val ip)))
      | c # fp \<Rightarrow>
          if c = period \<and> list_all is_digit fp \<and> (ip \<noteq> [] \<or> fp \<noteq> [])
          then Inr (round_double
                 (of_nat (digits_val ip) + of_nat (digits_val fp) / 10 ^ length fp))
          else Inl ValueError)"

text \<open>\<open>s.rindex(c)\<close>: the highest index of \<open>c\<close>, \<open>ValueError\<close> when there is none.\<close>

definition rindex :: "str \<Rightarrow> nat \<Rightarrow> nat result" where
  "rindex s c =
     (case filter (\<lambda>i. s ! i = c) (rev [0..<length s]) of
        [] \<Rightarrow> Inl ValueError
      | i # _ \<Rightarrow> Inr i)"

text \<open>\<open>s.replace(old, new)\<close> for a one-character \<open>old\<close>.\<close>

definition py_replace :: "nat \<Rightarrow> str \<Rightarrow> str \<Rightarrow> str" where
  "py_replace old new s = concat (map (\<lambda>c. if c = old then new else [c]) s)"

text \<open>\<open>s.split(sep)\<close> for a one-character separator.\<close>

fun py_split :: "nat \<Rightarrow> str \<Rightarrow> str list" where
  "py_split sep [] = [[]]"
| "py_split sep (c # cs) =
     (if c = sep then [] # py_split sep cs
      else (case py_split sep cs of
              [] \<Rightarrow> [[c]]
            | p # ps \<Rightarrow> (c # p) # ps))"

text \<open>\<open>s.count(sub)\<close>: the number of non-overlapping occurrences of \<open>sub\<close>.\<close>

fun py_count :: "str \<Rightarrow> str \<Rightarrow> nat" where
  "py_count sub [] = 0"
| "py_count sub (c # cs) =
     (if sub \<noteq> [] \<and> prefix sub (c # cs)
      then Suc (py_count sub (drop (length sub - 1) cs))
      else py_count sub cs)"

subsection \<open>format\_price\<close>

text \<open>\<open>re.sub(r'[^\d,.]', '', str(price_text))\<close>\<close>

definition price_clean :: "str \<Rightarrow> str" where
  "price_clean t = filter (\<lambda>c. is_digit c \<or> c = comma \<or> c = period) t"

text \<open>
  The body of the \<open>try\<close> block up to the call of \<open>float\<close>: the separators are
  rewritten. A string with both separators is rewritten only when its last comma comes
  after its last period; the other order reaches \<open>float\<close> unchanged.
\<close>

definition rewrite_separators :: "str \<Rightarrow> str result" where
  "rewrite_separators pc =
     (if comma \<in> set pc \<and> period \<in> set pc then
        (case rindex pc (comma) of
           Inl e \<Rightarrow> Inl e
         | Inr i \<Rightarrow>
             (case rindex pc (period) of
                Inl e \<Rightarrow> Inl e
              | Inr j \<Rightarrow>
                  if i > j
                  then Inr (py_replace (comma) [period] (py_replace (period) [] pc))
                  else Inr pc))
      else if comma \<in> set pc then
        (let parts = py_split (comma) pc in
         if length parts = 2 \<and> length (parts ! 1) \<le> 2
         then Inr (py_replace (comma) [period] pc)
         else Inr pc)
      else Inr pc)"

definition format_price_body :: "str \<Rightarrow> double result" where
  "format_price_body pc =
     (case rewrite_separators pc of
        Inl e \<Rightarrow> Inl e
      | Inr u \<Rightarrow> py_float u)"

text \<open>
  \<open>format_price\<close>: \<open>None\<close> and the empty string are falsy; \<open>ValueError\<close> and
  \<open>AttributeError\<close> from the body are caught and give 0.0.
\<close>

definition format_price :: "str option \<Rightarrow> double result" where
  "format_price price_text =
     (case price_text of
        None \<Rightarrow> Inr (Finite 0)
      | Some t \<Rightarrow>
          if t = [] then Inr (Finite 0)
          else if price_clean t = [] then Inr (Finite 0)
          else (case format_price_body (price_clean t) of
                  Inr v \<Rightarrow> Inr v
                | Inl e \<Rightarrow> if e = ValueError \<or> e = AttributeError then Inr (Finite 0) else Inl e))"

subsection \<open>extract\_rating\<close>

text \<open>
  \<open>re.search(r'(\d+[.,]?\d*)', s)\<close>, group 1: the match starts at the first digit of
  the text and takes the digits there, one period or comma if it follows, and the
  digits after it.
\<close>

definition rating_search :: "str \<Rightarrow> str option" where
  "rating_search s =
     (case dropWhile (\<lambda>c. \<not> is_digit c) s of
        [] \<Rightarrow> None
      | t \<Rightarrow>
          (let d1 = takeWhile is_digit t in
           case dropWhile is_digit t of
             [] \<Rightarrow> Some d1
           | c # r \<Rightarrow>
               if c = period \<or> c = comma
               then Some (d1 @ c # takeWhile is_digit r)
               else Some d1))"

text \<open>The two star characters, U+2605 and U+2B50.\<close>

definition black_star :: str where
  "black_star = [9733]"

definition glowing_star :: str where
  "glowing_star = [11088]"

text \<open>The count of stars, at most 5, as a float.\<close>

definition count_stars :: "str \<Rightarrow> double result" where
  "count_stars t =
     (let stars = py_count black_star t + py_count glowing_star t in
      if stars > 0 then Inr (Finite (of_nat (min 5 stars))) else Inr (Finite 0))"

definition extract_rating :: "str option \<Rightarrow> double result" where
  "extract_rating rating_text =
     (case rating_text of
        None \<Rightarrow> Inr (Finite 0)
      | Some t \<Rightarrow>
          if t = [] then Inr (Finite 0)
          else (case rating_search t of
                  None \<Rightarrow> count_stars t
                | Some tok \<Rightarrow>
                    (case py_float (py_replace comma [period] tok) of
                       Inr rating \<Rightarrow>
                         (let rating = (if dgt rating (Finite 5) then half rating else rating)
                          in Inr (py_min (Finite 5) (py_max (Finite 0) rating)))
                     | Inl e \<Rightarrow> if e = ValueError then count_stars t else Inl e)))"

section \<open>database/models.py\<close>

text \<open>
  The mapped classes are records and a table is the list of its rows in insertion
  order. A row is referred to by its position in the table, which stands for the
  Python object the session hands out for it. A \<open>Float\<close> column holds a double. The
  database is the SQLite file the settings name by default: a \<open>DateTime\<close> column is
  a text, which \<open>func.now()\<close> fills with \<open>CURRENT_TIMESTAMP\<close>, the text
  \<open>YYYY-MM-DD HH:MM:SS\<close> of the second, given here by the number of that second.
\<close>

record product =
  prod_id :: nat
  title :: string
  url :: string
  site :: string
  external_id :: "string option"
  current_price :: double
  original_price :: "double option"
  currency :: string
  image_url :: string
  rating :: double
  num_reviews :: nat
  in_stock :: bool
  free_shipping :: bool
  first_seen :: int
  last_updated :: int

record price_history =
  ph_id :: nat
  product_id :: nat
  price :: double
  ph_original_price :: "double option"
  discount_percent :: double
  recorded_at :: int
  session_id :: "nat option"

record scraping_session =
  sess_id :: nat
  session_name :: "string option"
  sess_site :: "string option"
  search_term :: "string option"
  filters_applied :: "(string \<times> nat) list"
  products_found :: nat
  products_saved :: nat
  new_products :: nat
  price_changes :: nat
  success :: bool
  error_message :: "string option"
  started_at :: int
  completed_at :: "int option"
  duration_seconds :: "int option"

text \<open>
  The dictionary a scraper produces for one listing: \<open>get_title d\<close> is
  \<open>product_data.get('title')\<close>, \<open>None\<close> when the key is absent. A key that is present
  holds a value of its column's type.
\<close>

record product_data =
  get_title :: "string option"
  get_url :: "string option"
  get_site :: "string option"
  get_external_id :: "string option"
  get_asin :: "string option"
  get_price :: "double option"
  get_original_price :: "double option"
  get_currency :: "string option"
  get_image_url :: "string option"
  get_rating :: "double option"
  get_num_reviews :: "nat option"
  get_in_stock :: "bool option"
  get_free_shipping :: "bool option"

text \<open>\<open>d.get(key, default)\<close>\<close>

definition get_default :: "'a option \<Rightarrow> 'a \<Rightarrow> 'a" where
  "get_default v dflt = (case v of None \<Rightarrow> dflt | Some x \<Rightarrow> x)"

text \<open>Truth value of an optional string: \<open>None\<close> and \<open>''\<close> are falsy.\<close>

definition truthy :: "string option \<Rightarrow> bool" where
  "truthy v = (case v of None \<Rightarrow> False | Some x \<Rightarrow> x \<noteq> [])"

text \<open>\<open>a or b\<close> on optional strings.\<close>

definition py_or :: "string option \<Rightarrow> string option \<Rightarrow> string option" where
  "py_or a b = (if truthy a then a else b)"

text \<open>
  \<open>create_product_from_dict\<close>; the key, \<open>first_seen\<close> and \<open>last_updated\<close> are filled
  in by the database when the row is flushed.
\<close>

definition create_product_from_dict :: "product_data \<Rightarrow> nat \<Rightarrow> int \<Rightarrow> product" where
  "create_product_from_dict d new_id now =
     \<lparr> prod_id = new_id,
       title = get_default (get_title d) [],
       url = get_default (get_url d) [],
       site = get_default (get_site d) [],
       external_id = py_or (get_external_id d) (get_asin d),
       current_price = get_default (get_price d) (Finite 0),
       original_price = get_original_price d,
       currency = get_default (get_currency d) ''BRL'',
       image_url = get_default (get_image_url d) [],
       rating = get_default (get_rating d) (Finite 0),
       num_reviews = get_default (get_num_reviews d) 0,
       in_stock = get_default (get_in_stock d) True,
       free_shipping = get_default (get_free_shipping d) False,
       first_seen = now,
       last_updated = now \<rparr>"

section \<open>database/database.py\<close>

record database =
  products :: "product list"
  price_history_rows :: "price_history list"
  scraping_sessions :: "scraping_session list"

text \<open>The key an autoincrement column gives the next row.\<close>

definition next_id :: "nat list \<Rightarrow> nat" where
  "next_id ids = Suc (fold max ids 0)"

text \<open>\<open>query.filter(P).first()\<close>, as the position of the first row that satisfies \<open>P\<close>.\<close>

fun first_index :: "('a \<Rightarrow> bool) \<Rightarrow> 'a list \<Rightarrow> nat option" where
  "first_index P [] = None"
| "first_index P (x # xs) = (if P x then Some 0 else map_option Suc (first_index P xs))"

subsection \<open>\_find\_existing\_product\<close>

definition find_existing_product :: "database \<Rightarrow> product_data \<Rightarrow> nat option" where
  "find_existing_product db d =
     (let u = get_url d;
          ext = py_or (get_external_id d) (get_asin d);
          st = get_site d;
          by_url = (if truthy u then first_index (\<lambda>p. Some (url p) = u) (products db)
                    else None)
      in case by_url of
           Some k \<Rightarrow> Some k
         | None \<Rightarrow>
             if truthy ext \<and> truthy st
             then first_index (\<lambda>p. external_id p = ext \<and> Some (site p) = st) (products db)
             else None)"

subsection \<open>\_update\_existing\_product\<close>

text \<open>The test \<open>abs(a - b) > 0.01\<close> on floats; \<open>0.01\<close> is the double nearest to 1/100.\<close>

definition price_changed :: "double \<Rightarrow> double \<Rightarrow> bool" where
  "price_changed a b = dgt (dabs (dsub a b)) (round_double (1 / 100))"

definition update_existing_product ::
  "database \<Rightarrow> nat \<Rightarrow> product_data \<Rightarrow> nat option \<Rightarrow> int \<Rightarrow> database" where
  "update_existing_product db k d sid now =
     (let p = products db ! k;
          old_price = current_price p;
          new_price = get_default (get_price d) (Finite 0);
          p' = p\<lparr> title := get_default (get_title d) (title p),
                  current_price := new_price,
                  original_price := get_original_price d,
                  image_url := get_default (get_image_url d) (image_url p),
                  rating := get_default (get_rating d) (rating p),
                  num_reviews := get_default (get_num_reviews d) (num_reviews p),
                  in_stock := get_default (get_in_stock d) (in_stock p),
                  free_shipping := get_default (get_free_shipping d) (free_shipping p),
                  last_updated := now \<rparr>;
          db' = db\<lparr> products := (products db)[k := p'] \<rparr>
      in if price_changed old_price new_price
         then db'\<lparr> price_history_rows := price_history_rows db' @
                 [\<lparr> ph_id = next_id (map ph_id (price_history_rows db')),
                    product_id = prod_id p,
                    price = new_price,
                    ph_original_price = get_original_price d,
                    discount_percent = Finite 0,
                    recorded_at = now,
                    session_id = sid \<rparr>] \<rparr>
         else db')"

subsection \<open>save\_products\<close>

text \<open>The \<open>else\<close> branch of the loop body: a new product and its first price record.\<close>

definition insert_new_product ::
  "database \<Rightarrow> product_data \<Rightarrow> nat option \<Rightarrow> int \<Rightarrow> database" where
  "insert_new_product db d sid now =
     (let new_product = create_product_from_dict d (next_id (map prod_id (products db))) now
      in db\<lparr> products := products db @ [new_product],
              price_history_rows := price_history_rows db @
                [\<lparr> ph_id = next_id (map ph_id (price_history_rows db)),
                   product_id = prod_id new_product,
                   price = current_price new_product,
                   ph_original_price = original_price new_product,
                   discount_percent = Finite 0,
                   recorded_at = now,
                   session_id = sid \<rparr>] \<rparr>)"

text \<open>
  The body of the loop of \<open>save_products\<close> on the session's uncommitted view \<open>w\<close> of
  the database: the view it leaves and the position of the saved row.
\<close>

definition save_product ::
  "database \<Rightarrow> product_data \<Rightarrow> nat option \<Rightarrow> int \<Rightarrow> database \<times> nat" where
  "save_product w d sid now =
     (case find_existing_product w d of
        Some k \<Rightarrow> (update_existing_product w k d sid now, k)
      | None \<Rightarrow> (insert_new_product w d sid now, length (products w)))"

text \<open>
  The loop. \<open>storage_fails i\<close> says that the storage layer raises \<open>SQLAlchemyError\<close>
  while listing \<open>i\<close> of the batch is processed. \<open>saved\<close> collects the positions of
  the saved rows.
\<close>

fun save_loop ::
  "(nat \<Rightarrow> bool) \<Rightarrow> nat option \<Rightarrow> int \<Rightarrow> nat \<Rightarrow> product_data list \<Rightarrow>
   database \<Rightarrow> nat list \<Rightarrow> (database \<times> nat list) result" where
  "save_loop storage_fails sid now i [] w saved = Inr (w, saved)"
| "save_loop storage_fails sid now i (d # ds) w saved =
     (if storage_fails i then Inl SQLAlchemyError
      else (case save_product w d sid now of
              (w', k) \<Rightarrow> save_loop storage_fails sid now (Suc i) ds w' (saved @ [k])))"

text \<open>
  \<open>save_products\<close> returns the database as later sessions see it, and the saved
  products or the exception that escapes. \<open>storage_fails (length products_data)\<close>
  says that the commit raises. The handler rolls the transaction back and raises again.
  \<open>now\<close> is the time the call reads from the clock and the database.
\<close>

definition save_products ::
  "(nat \<Rightarrow> bool) \<Rightarrow> int \<Rightarrow> database \<Rightarrow> product_data list \<Rightarrow> nat option \<Rightarrow>
   database \<times> product list result" where
  "save_products storage_fails now db products_data sid =
     (case save_loop storage_fails sid now 0 products_data db [] of
        Inl e \<Rightarrow> (db, Inl e)
      | Inr (w, saved) \<Rightarrow>
          if storage_fails (length products_data) then (db, Inl SQLAlchemyError)
          else (w, Inr (map (\<lambda>k. products w ! k) saved)))"

subsection \<open>get\_price\_changes\<close>

text \<open>
  A datetime that a query binds is sent to SQLite as the text
  \<open>YYYY-MM-DD HH:MM:SS.ffffff\<close>, and SQLite compares texts character by character,
  a proper prefix being the smaller. A stored \<open>recorded_at\<close> has no fraction, so it is
  below a bound datetime exactly when its second is not after the second of the
  datetime, and it is never equal to one. \<open>bound\<close> is the second of the bound
  datetime; its microseconds do not matter.
\<close>

definition stored_lt_bound :: "int \<Rightarrow> int \<Rightarrow> bool" where
  "stored_lt_bound stored bound = (stored \<le> bound)"

definition stored_ge_bound :: "int \<Rightarrow> int \<Rightarrow> bool" where
  "stored_ge_bound stored bound = (\<not> stored_lt_bound stored bound)"

text \<open>
  The inner query: the rows of the same product with
  \<open>recorded_at < change.recorded_at\<close>, where the right side is bound from the loaded
  row, ordered by \<open>recorded_at\<close> descending, and the first of them. Rows of the same
  second come in table order; the query does not say in which order they come.
\<close>

definition previous_record :: "database \<Rightarrow> price_history \<Rightarrow> price_history option" where
  "previous_record db change =
     (case sort_key (\<lambda>h. - recorded_at h)
             (filter (\<lambda>h. product_id h = product_id change \<and>
                           stored_lt_bound (recorded_at h) (recorded_at change))
                (price_history_rows db)) of
        [] \<Rightarrow> None
      | previous # _ \<Rightarrow> Some previous)"

definition price_change_of ::
  "database \<Rightarrow> price_history \<Rightarrow> (product \<times> price_history \<times> price_history) list" where
  "price_change_of db change =
     (case previous_record db change of
        None \<Rightarrow> []
      | Some previous \<Rightarrow>
          if price_changed (price previous) (price change)
          then (case find (\<lambda>p. prod_id p = product_id change) (products db) of
                  None \<Rightarrow> []
                | Some p \<Rightarrow> [(p, previous, change)])
          else [])"

text \<open>\<open>now\<close> is the second of \<open>datetime.utcnow()\<close>; the cutoff is whole hours before it.\<close>

definition get_price_changes ::
  "database \<Rightarrow> int \<Rightarrow> int \<Rightarrow> (product \<times> price_history \<times> price_history) list" where
  "get_price_changes db now hours =
     (let cutoff_date = now - hours * 3600;
          recent_changes = filter (\<lambda>h. stored_ge_bound (recorded_at h) cutoff_date)
                             (price_history_rows db)
      in concat (map (price_change_of db) recent_changes))"

subsection \<open>Scraping sessions\<close>

text \<open>The dictionary given to \<open>create_scraping_session\<close>.\<close>

record session_data =
  get_session_name :: "string option"
  get_session_site :: "string option"
  get_search_term :: "string option"
  get_filters_applied :: "(string \<times> nat) list option"

text \<open>
  \<open>create_scraping_session\<close>: the columns the constructor is not given take their
  defaults. \<open>storage_fails\<close> says that the storage layer raises, as it does for a
  session without a site (the column is not nullable); the handler rolls back and
  raises again.
\<close>

definition create_scraping_session ::
  "bool \<Rightarrow> int \<Rightarrow> database \<Rightarrow> session_data \<Rightarrow> database \<times> scraping_session result" where
  "create_scraping_session storage_fails now db sd =
     (if storage_fails \<or> get_session_site sd = None then (db, Inl SQLAlchemyError)
      else
        (let session =
           \<lparr> sess_id = next_id (map sess_id (scraping_sessions db)),
             session_name = get_session_name sd,
             sess_site = get_session_site sd,
             search_term = get_search_term sd,
             filters_applied = get_default (get_filters_applied sd) [],
             products_found = 0,
             products_saved = 0,
             new_products = 0,
             price_changes = 0,
             success = False,
             error_message = None,
             started_at = now,
             completed_at = None,
             duration_seconds = None \<rparr>
         in (db\<lparr> scraping_sessions := scraping_sessions db @ [session] \<rparr>, Inr session)))"

text \<open>The \<open>updates\<close> dictionary, with the keys its callers use.\<close>

record session_updates =
  upd_products_found :: "nat option"
  upd_products_saved :: "nat option"
  upd_success :: "bool option"
  upd_completed_at :: "int option"

definition update_scraping_session ::
  "bool \<Rightarrow> database \<Rightarrow> nat \<Rightarrow> session_updates \<Rightarrow>
   database \<times> scraping_session option result" where
  "update_scraping_session storage_fails db sid updates =
     (if storage_fails then (db, Inl SQLAlchemyError)
      else
        (case first_index (\<lambda>s. sess_id s = sid) (scraping_sessions db) of
           None \<Rightarrow> (db, Inr None)
         | Some k \<Rightarrow>
             (let s = scraping_sessions db ! k;
                  s' = s\<lparr> products_found := get_default (upd_products_found updates) (products_found s),
                          products_saved := get_default (upd_products_saved updates) (products_saved s),
                          success := get_default (upd_success updates) (success s),
                          completed_at :=
                            (case upd_completed_at updates of
                               None \<Rightarrow> completed_at s
                             | Some t \<Rightarrow> Some t),
                          duration_seconds :=
                            (case upd_completed_at updates of
                               None \<Rightarrow> duration_seconds s
                             | Some t \<Rightarrow> Some (t - started_at s)) \<rparr>
              in (db\<lparr> scraping_sessions := (scraping_sessions db)[k := s'] \<rparr>,
                  Inr (Some s')))))"

section \<open>scheduler.py\<close>

record search_config =
  cfg_site :: string
  cfg_search :: string
  cfg_max_results :: nat

definition default_searches :: "search_config list" where
  "default_searches =
     [\<lparr> cfg_site = ''amazon'', cfg_search = ''notebook'', cfg_max_results = 30 \<rparr>,
      \<lparr> cfg_site = ''mercadolivre'', cfg_search = ''smartphone'', cfg_max_results = 30 \<rparr>,
      \<lparr> cfg_site = ''ebay'', cfg_search = ''tablet'', cfg_max_results = 20 \<rparr>]"

text \<open>
  What the job meets outside itself: the outcome of creating the scraper of a pair and
  searching with it, the storage failures met while the pair is stored, the mail
  service, the configured recipients and the clock.
\<close>

record environment =
  search_products :: "search_config \<Rightarrow> product_data list result"
  create_session_fails :: "search_config \<Rightarrow> bool"
  save_fails :: "search_config \<Rightarrow> nat \<Rightarrow> bool"
  update_session_fails :: "search_config \<Rightarrow> bool"
  send_product_report :: "product_data list \<Rightarrow> bool result"
  email_recipients :: "string list"
  utcnow :: int

text \<open>The records the job writes to its logger.\<close>

datatype log_record =
    JobStarted
  | PairDone search_config nat
  | PairError search_config py_exception
  | JobCompleted nat
  | JobFailed py_exception

record job_state =
  db_manager :: database
  all_products :: "product_data list"
  logger :: "log_record list"

text \<open>
  The body of the inner \<open>try\<close> for one pair: the state it leaves, and the exception
  that escapes it, if any.
\<close>

definition scrape_pair ::
  "environment \<Rightarrow> search_config \<Rightarrow> job_state \<Rightarrow> job_state \<times> unit result" where
  "scrape_pair env cfg st =
     (case search_products env cfg of
        Inl e \<Rightarrow> (st, Inl e)
      | Inr found \<Rightarrow>
          if found = [] then (st, Inr ())
          else
            (case create_scraping_session (create_session_fails env cfg) (utcnow env)
                    (db_manager st)
                    \<lparr> get_session_name = Some (''Agendado - '' @ cfg_search cfg),
                      get_session_site = Some (cfg_site cfg),
                      get_search_term = Some (cfg_search cfg),
                      get_filters_applied = Some [(''max_results'', cfg_max_results cfg)] \<rparr> of
               (db1, Inl e) \<Rightarrow> (st\<lparr> db_manager := db1 \<rparr>, Inl e)
             | (db1, Inr session) \<Rightarrow>
                 (case save_products (save_fails env cfg) (utcnow env) db1 found
                         (Some (sess_id session)) of
                    (db2, Inl e) \<Rightarrow> (st\<lparr> db_manager := db2 \<rparr>, Inl e)
                  | (db2, Inr saved_products) \<Rightarrow>
                      (case update_scraping_session (update_session_fails env cfg) db2
                              (sess_id session)
                              \<lparr> upd_products_found = Some (length found),
                                upd_products_saved = Some (length saved_products),
                                upd_success = Some True,
                                upd_completed_at = Some (utcnow env) \<rparr> of
                         (db3, Inl e) \<Rightarrow> (st\<lparr> db_manager := db3 \<rparr>, Inl e)
                       | (db3, Inr _) \<Rightarrow>
                           (st\<lparr> db_manager := db3,
                                all_products := all_products st @ found,
                                logger := logger st @ [PairDone cfg (length found)] \<rparr>,
                            Inr ())))))"

text \<open>The loop over the searches, with its handler: the exception is logged and the
  loop goes on to the next pair.\<close>

fun scraping_sweep :: "environment \<Rightarrow> search_config list \<Rightarrow> job_state \<Rightarrow> job_state" where
  "scraping_sweep env [] st = st"
| "scraping_sweep env (cfg # cfgs) st =
     (case scrape_pair env cfg st of
        (st', Inl e) \<Rightarrow> scraping_sweep env cfgs (st'\<lparr> logger := logger st' @ [PairError cfg e] \<rparr>)
      | (st', Inr _) \<Rightarrow> scraping_sweep env cfgs st')"

text \<open>\<open>_daily_scraping_job\<close>, started on the database and the log as they are.\<close>

definition daily_scraping_job :: "environment \<Rightarrow> database \<Rightarrow> log_record list \<Rightarrow> job_state" where
  "daily_scraping_job env db lg =
     (let st = scraping_sweep env default_searches
                 \<lparr> db_manager = db, all_products = [], logger = lg @ [JobStarted] \<rparr>
      in if all_products st \<noteq> [] \<and> email_recipients env \<noteq> []
         then (case send_product_report env (all_products st) of
                 Inl e \<Rightarrow> st\<lparr> logger := logger st @ [JobFailed e] \<rparr>
               | Inr _ \<Rightarrow> st\<lparr> logger := logger st @ [JobCompleted (length (all_products st))] \<rparr>)
         else st\<lparr> logger := logger st @ [JobCompleted (length (all_products st))] \<rparr>)"

subsection \<open>What a pair of the sweep leaves behind\<close>

text \<open>
  Three observations on the environment, used to state what the sweep does.
  \<open>pair_stored\<close>: the storage layer raises at no point while the pair's session and
  products are written.
\<close>

definition pair_stored :: "environment \<Rightarrow> search_config \<Rightarrow> product_data list \<Rightarrow> bool" where
  "pair_stored env cfg found =
     (\<not> create_session_fails env cfg \<and>
      list_all (\<lambda>i. \<not> save_fails env cfg i) [0..<Suc (length found)] \<and>
      \<not> update_session_fails env cfg)"

text \<open>\<open>pair_products\<close>: the products a pair hands to the report.\<close>

definition pair_products :: "environment \<Rightarrow> search_config \<Rightarrow> product_data list" where
  "pair_products env cfg =
     (case search_products env cfg of
        Inl e \<Rightarrow> []
      | Inr found \<Rightarrow> if pair_stored env cfg found then found else [])"

text \<open>\<open>records_session\<close>: the adapter returned products and the session row was inserted.\<close>

definition records_session :: "environment \<Rightarrow> search_config \<Rightarrow> bool" where
  "records_session env cfg =
     (case search_products env cfg of
        Inl e \<Rightarrow> False
      | Inr found \<Rightarrow> found \<noteq> [] \<and> \<not> create_session_fails env cfg)"

text \<open>\<open>pair_success\<close>: the products of the pair were saved and its session was updated.\<close>

definition pair_success :: "environment \<Rightarrow> search_config \<Rightarrow> bool" where
  "pair_success env cfg =
     (case search_products env cfg of
        Inl e \<Rightarrow> False
      | Inr found \<Rightarrow> found \<noteq> [] \<and> pair_stored env cfg found)"

section \<open>Concrete inputs\<close>

text \<open>A listing as a scraper produces it, the product stored for it, and variants.\<close>

definition example_listing :: product_data where
  "example_listing =
     \<lparr> get_title = Some ''Notebook'',
       get_url = Some ''https://loja.example/p/1'',
       get_site = Some ''Amazon'',
       get_external_id = None,
       get_asin = Some ''B01'',
       get_price = Some (Finite 10),
       get_original_price = None,
       get_currency = None,
       get_image_url = None,
       get_rating = Some (Finite 4.5),
       get_num_reviews = Some 12,
       get_in_stock = Some True,
       get_free_shipping = Some False \<rparr>"

text \<open>A record that carries nothing but the url of the stored product.\<close>

definition url_only_listing :: product_data where
  "url_only_listing =
     \<lparr> get_title = None,
       get_url = Some ''https://loja.example/p/1'',
       get_site = None,
       get_external_id = None,
       get_asin = None,
       get_price = None,
       get_original_price = None,
       get_currency = None,
       get_image_url = None,
       get_rating = None,
       get_num_reviews = None,
       get_in_stock = None,
       get_free_shipping = None \<rparr>"

definition example_product :: product where
  "example_product =
     \<lparr> prod_id = 1,
       title = ''Notebook'',
       url = ''https://loja.example/p/1'',
       site = ''Amazon'',
       external_id = Some ''B01'',
       current_price = Finite 10,
       original_price = None,
       currency = ''BRL'',
       image_url = [],
       rating = Finite 4.5,
       num_reviews = 12,
       in_stock = True,
       free_shipping = False,
       first_seen = 100,
       last_updated = 100 \<rparr>"

definition first_record :: price_history where
  "first_record =
     \<lparr> ph_id = 1, product_id = 1, price = Finite 10, ph_original_price = None,
       discount_percent = Finite 0, recorded_at = 100, session_id = None \<rparr>"

definition second_record :: price_history where
  "second_record =
     \<lparr> ph_id = 2, product_id = 1, price = Finite 12, ph_original_price = None,
       discount_percent = Finite 0, recorded_at = 200, session_id = None \<rparr>"

definition lone_record :: price_history where
  "lone_record =
     \<lparr> ph_id = 3, product_id = 2, price = Finite 5, ph_original_price = None,
       discount_percent = Finite 0, recorded_at = 150, session_id = None \<rparr>"

definition empty_database :: database where
  "empty_database = \<lparr> products = [], price_history_rows = [], scraping_sessions = [] \<rparr>"

text \<open>The database after \<open>example_listing\<close> was saved once.\<close>

definition example_database :: database where
  "example_database =
     \<lparr> products = [example_product],
       price_history_rows = [first_record],
       scraping_sessions = [] \<rparr>"


text \<open>Two products, the first with two price records and the second with one.\<close>

definition history_database :: database where
  "history_database =
     \<lparr> products = [example_product,
                    example_product\<lparr> prod_id := 2, url := ''https://loja.example/p/2'',
                                     external_id := Some ''B02'', current_price := Finite 5 \<rparr>],
       price_history_rows = [first_record, second_record, lone_record],
       scraping_sessions = [] \<rparr>"

text \<open>Environments of the daily job: every adapter raises, every adapter finds
  nothing, every adapter finds one listing, and the first adapter raises while the
  others find one listing.\<close>

definition raising_env :: environment where
  "raising_env =
     \<lparr> search_products = (\<lambda>cfg. Inl (OtherException ''timeout'')),
       create_session_fails = (\<lambda>cfg. False),
       save_fails = (\<lambda>cfg i. False),
       update_session_fails = (\<lambda>cfg. False),
       send_product_report = (\<lambda>ps. Inr True),
       email_recipients = [''ops@loja.example''],
       utcnow = 1000 \<rparr>"

definition empty_env :: environment where
  "empty_env = raising_env\<lparr> search_products := (\<lambda>cfg. Inr []) \<rparr>"

definition found_env :: environment where
  "found_env = raising_env\<lparr> search_products := (\<lambda>cfg. Inr [example_listing]) \<rparr>"

definition mixed_env :: environment where
  "mixed_env =
     raising_env\<lparr> search_products :=
       (\<lambda>cfg. if cfg_site cfg = ''amazon'' then Inl (OtherException ''timeout'')
              else Inr [example_listing]) \<rparr>"

text \<open>Variants of \<open>example_listing\<close>: the same url under another site and identifier,
  another url with the identifier of the second stored product, that record without a
  url, and two records for a url that is not stored.\<close>

definition other_site :: product_data where
  "other_site = example_listing\<lparr> get_site := Some ''eBay'', get_asin := Some ''ZZ'' \<rparr>"

definition other_url :: product_data where
  "other_url =
     example_listing\<lparr> get_url := Some ''https://loja.example/other'', get_asin := Some ''B02'' \<rparr>"

definition no_url :: product_data where
  "no_url = example_listing\<lparr> get_url := None, get_asin := Some ''B02'' \<rparr>"

definition new_listing :: product_data where
  "new_listing =
     example_listing\<lparr> get_url := Some ''https://loja.example/p/9'', get_site := Some ''eBay'',
                      get_asin := None \<rparr>"

definition new_listing_elsewhere :: product_data where
  "new_listing_elsewhere =
     new_listing\<lparr> get_site := Some ''Mercado Livre'', get_external_id := Some ''ML9'' \<rparr>"

text \<open>Two records without a url for an identifier that is not stored.\<close>

definition keyed_listing :: product_data where
  "keyed_listing = example_listing\<lparr> get_url := None, get_asin := Some ''B77'' \<rparr>"

definition keyed_listing_again :: product_data where
  "keyed_listing_again = keyed_listing\<lparr> get_url := Some [], get_title := Some ''Notebook 2'' \<rparr>"

text \<open>The first search of the daily job and the state it starts from.\<close>

definition amazon_search :: search_config where
  "amazon_search = \<lparr> cfg_site = ''amazon'', cfg_search = ''notebook'', cfg_max_results = 30 \<rparr>"

definition initial_state :: job_state where
  "initial_state = \<lparr> db_manager = empty_database, all_products = [], logger = [] \<rparr>"

section \<open>Properties of the helpers\<close>

subsection \<open>Digits\<close>

lemma decimal_value_low:
  "c < 1632 \<Longrightarrow> decimal_value c = (if 48 \<le> c \<and> c < 58 then Some (c - 48) else None)"
  by (simp add: decimal_value_def nd_zeros_def)

lemma is_digit_low: "c < 1632 \<Longrightarrow> is_digit c = (48 \<le> c \<and> c < 58)"
  by (simp add: is_digit_def decimal_value_low)

lemma digit_val_low: "c < 1632 \<Longrightarrow> digit_val c = (if 48 \<le> c \<and> c < 58 then c - 48 else 0)"
  by (simp add: digit_val_def decimal_value_low)

lemma not_digit_sep [simp]: "\<not> is_digit period" "\<not> is_digit comma"
  by (simp_all add: is_digit_low period_def comma_def)

lemma comma_neq_period [simp]: "comma \<noteq> period" "period \<noteq> comma"
  by (simp_all add: period_def comma_def)

subsection \<open>format\_price\<close>

lemma py_float_Inl: "py_float s = Inl e \<Longrightarrow> e = ValueError"
  by (auto simp: py_float_def Let_def split: list.splits if_splits)

lemma rindex_mem: "c \<in> set s \<Longrightarrow> \<exists>i. rindex s c = Inr i"
proof -
  assume "c \<in> set s"
  then obtain k where k: "k < length s" "s ! k = c" by (auto simp: in_set_conv_nth)
  then have "k \<in> set (filter (\<lambda>i. s ! i = c) (rev [0..<length s]))" by simp
  then have "filter (\<lambda>i. s ! i = c) (rev [0..<length s]) \<noteq> []" by (metis empty_iff empty_set)
  then show ?thesis by (auto simp: rindex_def split: list.splits)
qed

lemma rewrite_separators_Inr: "\<exists>u. rewrite_separators pc = Inr u"
proof (cases "comma \<in> set pc \<and> period \<in> set pc")
  case True
  then obtain i j where "rindex pc comma = Inr i" "rindex pc (period) = Inr j"
    using rindex_mem by blast
  with True show ?thesis by (simp add: rewrite_separators_def)
next
  case False
  then show ?thesis by (auto simp: rewrite_separators_def Let_def)
qed

lemma format_price_body_Inl: "format_price_body pc = Inl e \<Longrightarrow> e = ValueError"
  using rewrite_separators_Inr [of pc]
  by (auto simp: format_price_body_def dest: py_float_Inl)

lemma format_price_returns: "\<exists>v. format_price t = Inr v"
proof (cases t)
  case None
  then show ?thesis by (simp add: format_price_def)
next
  case (Some s)
  show ?thesis
  proof (cases "format_price_body (price_clean s)")
    case (Inl e)
    then have "e = ValueError" by (rule format_price_body_Inl)
    with Inl Some show ?thesis by (simp add: format_price_def)
  next
    case (Inr v)
    with Some show ?thesis by (simp add: format_price_def)
  qed
qed

lemma set_py_replace: "set (py_replace old new s) \<subseteq> set s \<union> set new"
  by (induction s) (auto simp: py_replace_def)

lemma rewrite_separators_set:
  "rewrite_separators pc = Inr u \<Longrightarrow> set u \<subseteq> set pc \<union> {period}"
  using set_py_replace [of "comma" "[period]" pc]
    set_py_replace [of "comma" "[period]" "py_replace (period) [] pc"]
    set_py_replace [of "period" "[]" pc]
  by (auto simp: rewrite_separators_def Let_def split: sum.splits if_splits)

lemma py_float_no_digit:
  assumes "\<forall>c \<in> set u. \<not> is_digit c"
  shows "py_float u = Inl ValueError"
proof -
  from assms have tw: "takeWhile is_digit u = []" by (cases u) auto
  from assms have dw: "dropWhile is_digit u = u" by (cases u) auto
  show ?thesis
  proof (cases u)
    case Nil
    then show ?thesis by (simp add: py_float_def)
  next
    case (Cons c fp)
    with assms have "fp = [] \<or> \<not> list_all is_digit fp"
      by (cases fp) auto
    with Cons tw dw show ?thesis by (auto simp: py_float_def Let_def)
  qed
qed

lemma format_price_no_digit:
  assumes "\<forall>c \<in> set s. \<not> is_digit c"
  shows "format_price (Some s) = Inr (Finite 0)"
proof -
  obtain u where u: "rewrite_separators (price_clean s) = Inr u"
    using rewrite_separators_Inr by blast
  have "\<not> is_digit period" by simp
  moreover have "set (price_clean s) \<subseteq> set s" by (auto simp: price_clean_def)
  ultimately have "\<forall>c \<in> set u. \<not> is_digit c"
    using rewrite_separators_set [OF u] assms not_digit_sep(1) by blast
  then have "py_float u = Inl ValueError" by (rule py_float_no_digit)
  with u show ?thesis by (simp add: format_price_def format_price_body_def)
qed

lemma format_price_unparseable:
  assumes "rewrite_separators (price_clean s) = Inr u" "py_float u = Inl e"
  shows "format_price (Some s) = Inr (Finite 0)"
  using assms py_float_Inl [OF assms(2)]
  by (simp add: format_price_def format_price_body_def)

subsection \<open>extract\_rating\<close>

lemma py_replace_digits:
  "list_all is_digit ds \<Longrightarrow> py_replace comma [period] ds = ds"
  by (induction ds) (auto simp: py_replace_def)

lemma py_replace_append:
  "py_replace old new (xs @ ys) = py_replace old new xs @ py_replace old new ys"
  by (simp add: py_replace_def)

lemma takeWhile_digits_append:
  "list_all is_digit ds \<Longrightarrow> rest = [] \<or> \<not> is_digit (hd rest) \<Longrightarrow>
   takeWhile is_digit (ds @ rest) = ds"
  by (induction ds) (auto simp: takeWhile_eq_Nil_iff)

lemma dropWhile_digits_append:
  "list_all is_digit ds \<Longrightarrow> rest = [] \<or> \<not> is_digit (hd rest) \<Longrightarrow>
   dropWhile is_digit (ds @ rest) = rest"
  by (induction ds) (auto simp: dropWhile_eq_self_iff)

lemma dropWhile_nondigits_append:
  "list_all (\<lambda>c. \<not> is_digit c) p \<Longrightarrow> t = [] \<or> is_digit (hd t) \<Longrightarrow>
   dropWhile (\<lambda>c. \<not> is_digit c) (p @ t) = t"
  by (induction p) (auto simp: dropWhile_eq_self_iff)

lemma py_float_int:
  assumes "ds \<noteq> []" "list_all is_digit ds"
  shows "py_float ds = Inr (round_double (of_nat (digits_val ds)))"
proof -
  from assms(2) have tw: "takeWhile is_digit ds = ds" and dw: "dropWhile is_digit ds = []"
    by (simp_all add: list_all_iff)
  show ?thesis unfolding py_float_def tw dw using assms(1) by simp
qed

lemma py_float_frac:
  assumes "ds \<noteq> []" "list_all is_digit ds" "list_all is_digit fs"
  shows "py_float (ds @ period # fs) =
           Inr (round_double (of_nat (digits_val ds) + of_nat (digits_val fs) / 10 ^ length fs))"
  using assms takeWhile_digits_append [of ds "period # fs"]
    dropWhile_digits_append [of ds "period # fs"]
  by (simp add: py_float_def)

lemma rating_search_sep:
  assumes p: "list_all (\<lambda>c. \<not> is_digit c) p"
    and ds: "ds \<noteq> []" "list_all is_digit ds"
    and sep: "sep = period \<or> sep = comma"
    and fs: "list_all is_digit fs"
    and rest: "rest = [] \<or> \<not> is_digit (hd rest)"
  shows "rating_search (p @ ds @ sep # fs @ rest) = Some (ds @ sep # fs)"
proof -
  let ?t = "ds @ sep # fs @ rest"
  from ds have hd: "?t = [] \<or> is_digit (hd ?t)" by (cases ds) auto
  have dw: "dropWhile (\<lambda>c. \<not> is_digit c) (p @ ?t) = ?t"
    using dropWhile_nondigits_append [OF p hd] .
  from sep have nsep: "\<not> is_digit sep" by auto
  have tw1: "takeWhile is_digit ?t = ds"
    using takeWhile_digits_append [OF ds(2), of "sep # fs @ rest"] nsep by simp
  have dw1: "dropWhile is_digit ?t = sep # fs @ rest"
    using dropWhile_digits_append [OF ds(2), of "sep # fs @ rest"] nsep by simp
  have tw2: "takeWhile is_digit (fs @ rest) = fs"
    using takeWhile_digits_append [OF fs rest] .
  from ds obtain d ds' where dsc: "ds = d # ds'" by (cases ds) auto
  have "rating_search (p @ ?t) =
          (case ?t of [] \<Rightarrow> None
           | t \<Rightarrow> (let d1 = takeWhile is_digit ?t in
                case dropWhile is_digit ?t of [] \<Rightarrow> Some d1
                | c # r \<Rightarrow> if c = period \<or> c = comma then Some (d1 @ c # takeWhile is_digit r)
                           else Some d1))"
    unfolding rating_search_def dw by (simp add: dsc)
  also have "\<dots> = Some (ds @ sep # fs)"
    unfolding tw1 dw1 using sep tw2 by (simp add: dsc)
  finally show ?thesis .
qed

lemma rating_search_int:
  assumes p: "list_all (\<lambda>c. \<not> is_digit c) p"
    and ds: "ds \<noteq> []" "list_all is_digit ds"
    and rest: "rest = [] \<or> (\<not> is_digit (hd rest) \<and> hd rest \<noteq> period \<and> hd rest \<noteq> comma)"
  shows "rating_search (p @ ds @ rest) = Some ds"
proof -
  let ?t = "ds @ rest"
  from ds have hd: "?t = [] \<or> is_digit (hd ?t)" by (cases ds) auto
  have dw: "dropWhile (\<lambda>c. \<not> is_digit c) (p @ ?t) = ?t"
    using dropWhile_nondigits_append [OF p hd] .
  from rest have rest': "rest = [] \<or> \<not> is_digit (hd rest)" by auto
  have tw1: "takeWhile is_digit ?t = ds"
    using takeWhile_digits_append [OF ds(2) rest'] .
  have dw1: "dropWhile is_digit ?t = rest"
    using dropWhile_digits_append [OF ds(2) rest'] .
  from ds obtain d ds' where dsc: "ds = d # ds'" by (cases ds) auto
  have "rating_search (p @ ?t) =
          (case ?t of [] \<Rightarrow> None
           | t \<Rightarrow> (let d1 = takeWhile is_digit ?t in
                case dropWhile is_digit ?t of [] \<Rightarrow> Some d1
                | c # r \<Rightarrow> if c = period \<or> c = comma then Some (d1 @ c # takeWhile is_digit r)
                           else Some d1))"
    unfolding rating_search_def dw by (simp add: dsc)
  also have "\<dots> = Some ds"
    unfolding tw1 dw1 using rest by (cases rest) (auto simp: dsc)
  finally show ?thesis .
qed

lemma count_stars_range:
  "\<exists>r. count_stars t = Inr (Finite r) \<and> 0 \<le> r \<and> r \<le> 5"
  by (simp add: count_stars_def Let_def)

lemma clamp_range:
  "\<exists>r. py_min (Finite 5) (py_max (Finite 0) d) = Finite r \<and> 0 \<le> r \<and> r \<le> 5"
  by (cases d) (auto simp: py_min_def py_max_def dlt_def)

lemma extract_rating_range:
  "\<exists>r. extract_rating t = Inr (Finite r) \<and> 0 \<le> r \<and> r \<le> 5"
proof (cases t)
  case None
  then show ?thesis by (simp add: extract_rating_def)
next
  case (Some s)
  show ?thesis
  proof (cases "rating_search s")
    case None
    with Some count_stars_range [of s] show ?thesis
      by (auto simp: extract_rating_def)
  next
    case tok: (Some tok)
    show ?thesis
    proof (cases "py_float (py_replace comma [period] tok)")
      case (Inl e)
      then have "e = ValueError" by (rule py_float_Inl)
      with Inl tok Some count_stars_range [of s] show ?thesis
        by (auto simp: extract_rating_def)
    next
      case (Inr v)
      with tok Some
        clamp_range [of "if dgt v (Finite 5) then half v else v"]
      show ?thesis
        by (auto simp: extract_rating_def Let_def)
    qed
  qed
qed

lemma extract_rating_sep:
  assumes p: "list_all (\<lambda>c. \<not> is_digit c) p"
    and ds: "ds \<noteq> []" "list_all is_digit ds"
    and sep: "sep = period \<or> sep = comma"
    and fs: "list_all is_digit fs"
    and rest: "rest = [] \<or> \<not> is_digit (hd rest)"
    and v: "v = round_double (of_nat (digits_val ds) + of_nat (digits_val fs) / 10 ^ length fs)"
  shows "extract_rating (Some (p @ ds @ sep # fs @ rest)) =
           Inr (py_min (Finite 5) (py_max (Finite 0) (if dgt v (Finite 5) then half v else v)))"
proof -
  have tok: "rating_search (p @ ds @ sep # fs @ rest) = Some (ds @ sep # fs)"
    using rating_search_sep [OF p ds sep fs rest] .
  have "py_replace comma [period] (ds @ sep # fs) = ds @ period # fs"
    using sep py_replace_digits [OF ds(2)] py_replace_digits [OF fs]
    by (auto simp: py_replace_append) (simp_all add: py_replace_def)
  then have "py_float (py_replace comma [period] (ds @ sep # fs)) = Inr v"
    using py_float_frac [OF ds fs] v by simp
  with tok ds show ?thesis
    by (simp add: extract_rating_def Let_def)
qed

lemma extract_rating_int:
  assumes p: "list_all (\<lambda>c. \<not> is_digit c) p"
    and ds: "ds \<noteq> []" "list_all is_digit ds"
    and rest: "rest = [] \<or> (\<not> is_digit (hd rest) \<and> hd rest \<noteq> period \<and> hd rest \<noteq> comma)"
    and v: "v = round_double (of_nat (digits_val ds))"
  shows "extract_rating (Some (p @ ds @ rest)) =
           Inr (py_min (Finite 5) (py_max (Finite 0) (if dgt v (Finite 5) then half v else v)))"
proof -
  have tok: "rating_search (p @ ds @ rest) = Some ds"
    using rating_search_int [OF p ds rest] .
  have "py_float (py_replace comma [period] ds) = Inr v"
    using py_float_int [OF ds] py_replace_digits [OF ds(2)] v by simp
  with tok ds show ?thesis
    by (simp add: extract_rating_def Let_def)
qed

subsection \<open>Evaluation on concrete texts\<close>

lemmas helper_defs = format_price_def format_price_body_def rewrite_separators_def
  price_clean_def py_float_def rindex_def py_replace_def digits_val_def
  ascii_def is_digit_low digit_val_low comma_def period_def

lemmas rating_defs = extract_rating_def rating_search_def py_float_def py_replace_def
  digits_val_def ascii_def is_digit_low digit_val_low comma_def period_def
  py_min_def py_max_def dlt_def

lemma round_small:
  "round_double 9 = Finite 9" "round_double (9 / 2) = Finite (9 / 2)"
  "round_double 12 = Finite 12" "round_double 6 = Finite 6"
  "round_double 123 = Finite 123" "round_double 4 = Finite 4"
  "round_double (50000000000000001 / 10000000000000000) = Finite 5"
  by code_simp+

lemma rating_examples:
  "extract_rating (Some (ascii ''9.0'')) = Inr (Finite 4.5)"
  "extract_rating (Some (ascii ''4.5'')) = Inr (Finite 4.5)"
  "extract_rating (Some (ascii ''12'')) = Inr (Finite 5.0)"
  by (simp_all add: rating_defs round_small)

lemma unicode_digits:
  "format_price (Some [1633, 1634, 1635]) = Inr (Finite 123)"
  "extract_rating (Some [1636, 32, 51]) = Inr (Finite 4)"
  "extract_rating (Some (ascii ''5.0000000000000001'')) = Inr (Finite 5)"
  by (simp_all add: format_price_def format_price_body_def rewrite_separators_def
      price_clean_def extract_rating_def rating_search_def py_float_def py_replace_def
      digits_val_def digit_val_def is_digit_def decimal_value_def nd_zeros_def ascii_def
      comma_def period_def py_min_def py_max_def dlt_def round_small)

section \<open>Properties of the database manager\<close>

subsection \<open>Lookups and the save loop\<close>

lemma first_index_less: "first_index P xs = Some k \<Longrightarrow> k < length xs"
  by (induction xs arbitrary: k) (auto split: if_splits)

lemma first_index_holds: "first_index P xs = Some k \<Longrightarrow> P (xs ! k)"
  by (induction xs arbitrary: k) (auto split: if_splits)

lemma first_index_None: "first_index P xs = None \<longleftrightarrow> (\<forall>x \<in> set xs. \<not> P x)"
  by (induction xs) auto

lemma first_index_append_new:
  "first_index P xs = None \<Longrightarrow> P x \<Longrightarrow> first_index P (xs @ [x]) = Some (length xs)"
  by (induction xs) (auto split: if_splits)

lemma first_index_append_old:
  "first_index P xs = Some k \<Longrightarrow> first_index P (xs @ ys) = Some k"
  by (induction xs arbitrary: k) (auto split: if_splits)

lemma find_existing_product_less:
  "find_existing_product db d = Some k \<Longrightarrow> k < length (products db)"
  by (auto simp: find_existing_product_def Let_def split: option.splits if_splits
      dest: first_index_less)

lemma save_loop_Inl:
  "save_loop storage_fails sid now i ds w saved = Inl e \<Longrightarrow> e = SQLAlchemyError"
  by (induction ds arbitrary: i w saved) (auto simp: case_prod_beta split: if_splits)

lemma save_loop_fault:
  "\<exists>j < length ds. storage_fails (i + j) \<Longrightarrow>
   save_loop storage_fails sid now i ds w saved = Inl SQLAlchemyError"
proof (induction ds arbitrary: i w saved)
  case Nil
  then show ?case by simp
next
  case (Cons d ds)
  show ?case
  proof (cases "storage_fails i")
    case True
    then show ?thesis by simp
  next
    case False
    from Cons.prems obtain j where j: "j < length (d # ds)" "storage_fails (i + j)" by blast
    with False have "j \<noteq> 0" by (cases j) auto
    then obtain j' where "j = Suc j'" by (cases j) auto
    with j have "\<exists>j < length ds. storage_fails (Suc i + j)" by auto
    from Cons.IH [OF this] False show ?thesis by (simp add: case_prod_beta)
  qed
qed

lemma save_loop_ok:
  "\<forall>j < length ds. \<not> storage_fails (i + j) \<Longrightarrow>
   \<exists>ks. save_loop storage_fails sid now i ds w saved =
          Inr (fold (\<lambda>d w. fst (save_product w d sid now)) ds w, saved @ ks)
        \<and> length ks = length ds"
proof (induction ds arbitrary: i w saved)
  case Nil
  then show ?case by simp
next
  case (Cons d ds)
  from Cons.prems have here: "\<not> storage_fails i" by force
  from Cons.prems have "\<forall>j < length ds. \<not> storage_fails (Suc i + j)" by force
  from Cons.IH [OF this, of "fst (save_product w d sid now)" "saved @ [snd (save_product w d sid now)]"]
  obtain ks where ks: "save_loop storage_fails sid now (Suc i) ds (fst (save_product w d sid now))
       (saved @ [snd (save_product w d sid now)]) =
     Inr (fold (\<lambda>d w. fst (save_product w d sid now)) ds (fst (save_product w d sid now)),
          (saved @ [snd (save_product w d sid now)]) @ ks)" "length ks = length ds"
    by blast
  show ?case
    by (rule exI [of _ "snd (save_product w d sid now) # ks"])
      (use here ks in \<open>simp add: case_prod_beta\<close>)
qed

lemma save_products_outcome:
  "((\<exists>i \<le> length ds. storage_fails i) \<longrightarrow>
      save_products storage_fails now db ds sid = (db, Inl SQLAlchemyError)) \<and>
   ((\<forall>i \<le> length ds. \<not> storage_fails i) \<longrightarrow>
      (\<exists>saved. save_products storage_fails now db ds sid =
          (fold (\<lambda>d w. fst (save_product w d sid now)) ds db, Inr saved)
        \<and> length saved = length ds))"
proof (intro conjI impI)
  assume "\<exists>i \<le> length ds. storage_fails i"
  then obtain i where i: "i \<le> length ds" "storage_fails i" by blast
  show "save_products storage_fails now db ds sid = (db, Inl SQLAlchemyError)"
  proof (cases "i < length ds")
    case True
    with i have "\<exists>j < length ds. storage_fails (0 + j)" by auto
    from save_loop_fault [OF this] show ?thesis by (simp add: save_products_def)
  next
    case False
    with i have "storage_fails (length ds)" by simp
    then show ?thesis
      by (auto simp: save_products_def split: sum.splits dest: save_loop_Inl)
  qed
next
  assume ok: "\<forall>i \<le> length ds. \<not> storage_fails i"
  then have "\<forall>j < length ds. \<not> storage_fails (0 + j)" by simp
  from save_loop_ok [OF this, of sid now db "[]"] obtain ks where
    ks: "save_loop storage_fails sid now 0 ds db [] =
           Inr (fold (\<lambda>d w. fst (save_product w d sid now)) ds db, ks)" "length ks = length ds"
    by auto
  from ok have "\<not> storage_fails (length ds)" by simp
  with ks show "\<exists>saved. save_products storage_fails now db ds sid =
          (fold (\<lambda>d w. fst (save_product w d sid now)) ds db, Inr saved)
        \<and> length saved = length ds"
    by (simp add: save_products_def)
qed

subsection \<open>Updates and identity\<close>

lemma save_products_single:
  "\<not> storage_fails 0 \<Longrightarrow> \<not> storage_fails (Suc 0) \<Longrightarrow>
   fst (save_products storage_fails now db [d] sid) = fst (save_product db d sid now)"
  by (simp add: save_products_def case_prod_beta)


lemma update_rows_changed:
  "price_changed (current_price (products db ! k)) (get_default (get_price d) (Finite 0)) \<Longrightarrow>
   \<exists>h. price_history_rows (update_existing_product db k d sid now) = price_history_rows db @ [h]
     \<and> price h = get_default (get_price d) (Finite 0)
     \<and> product_id h = prod_id (products db ! k)"
  by (simp add: update_existing_product_def Let_def)

lemma update_products:
  "products (update_existing_product db k d sid now) =
     (products db)[k := (products db ! k)
        \<lparr> title := get_default (get_title d) (title (products db ! k)),
          current_price := get_default (get_price d) (Finite 0),
          original_price := get_original_price d,
          image_url := get_default (get_image_url d) (image_url (products db ! k)),
          rating := get_default (get_rating d) (rating (products db ! k)),
          num_reviews := get_default (get_num_reviews d) (num_reviews (products db ! k)),
          in_stock := get_default (get_in_stock d) (in_stock (products db ! k)),
          free_shipping := get_default (get_free_shipping d) (free_shipping (products db ! k)),
          last_updated := now \<rparr>]"
  by (simp add: update_existing_product_def Let_def)

lemma find_by_url:
  "truthy (get_url d) \<Longrightarrow> first_index (\<lambda>p. Some (url p) = get_url d) (products db) = Some k \<Longrightarrow>
   find_existing_product db d = Some k"
  by (simp add: find_existing_product_def)

lemma find_by_key:
  "\<not> truthy (get_url d) \<or> (\<forall>p \<in> set (products db). Some (url p) \<noteq> get_url d) \<Longrightarrow>
   find_existing_product db d =
     (if truthy (py_or (get_external_id d) (get_asin d)) \<and> truthy (get_site d)
      then first_index (\<lambda>p. external_id p = py_or (get_external_id d) (get_asin d)
                          \<and> Some (site p) = get_site d) (products db)
      else None)"
proof -
  assume "\<not> truthy (get_url d) \<or> (\<forall>p \<in> set (products db). Some (url p) \<noteq> get_url d)"
  then have "(if truthy (get_url d)
              then first_index (\<lambda>p. Some (url p) = get_url d) (products db) else None) = None"
    by (auto simp: first_index_None)
  then show ?thesis by (simp add: find_existing_product_def Let_def)
qed

lemma find_same_url:
  assumes "get_url d1 = get_url d2" "truthy (get_url d1)"
    and "\<exists>p \<in> set (products db). Some (url p) = get_url d1"
  shows "find_existing_product db d1 = find_existing_product db d2
       \<and> find_existing_product db d1 \<noteq> None"
proof -
  from assms(3) have "first_index (\<lambda>p. Some (url p) = get_url d1) (products db) \<noteq> None"
    by (simp add: first_index_None)
  then obtain k where k: "first_index (\<lambda>p. Some (url p) = get_url d1) (products db) = Some k"
    by auto
  from find_by_url [OF assms(2) k] find_by_url [of d2 db k] assms(1,2) k
  show ?thesis by simp
qed

lemma find_same_key:
  assumes "py_or (get_external_id d1) (get_asin d1) = py_or (get_external_id d2) (get_asin d2)"
    and "get_site d1 = get_site d2"
    and "\<not> truthy (get_url d1) \<or> (\<forall>p \<in> set (products db). Some (url p) \<noteq> get_url d1)"
    and "\<not> truthy (get_url d2) \<or> (\<forall>p \<in> set (products db). Some (url p) \<noteq> get_url d2)"
  shows "find_existing_product db d1 = find_existing_product db d2"
  using find_by_key [OF assms(3)] find_by_key [OF assms(4)] assms(1,2) by simp

lemma find_after_insert_url:
  assumes "find_existing_product db d1 = None" "truthy (get_url d1)" "get_url d2 = get_url d1"
  shows "find_existing_product (fst (save_product db d1 sid now)) d2 = Some (length (products db))"
proof -
  from assms(1,2) have none: "first_index (\<lambda>p. Some (url p) = get_url d1) (products db) = None"
    by (auto simp: find_existing_product_def Let_def split: option.splits if_splits)
  from assms(2) obtain u where u: "get_url d1 = Some u" by (cases "get_url d1") (auto simp: truthy_def)
  let ?new = "create_product_from_dict d1 (next_id (map prod_id (products db))) now"
  have "Some (url ?new) = get_url d1"
    by (simp add: create_product_from_dict_def u get_default_def)
  from first_index_append_new [OF none, of ?new, OF this]
  have "first_index (\<lambda>p. Some (url p) = get_url d2) (products db @ [?new]) = Some (length (products db))"
    by (simp add: assms(3))
  moreover have "products (fst (save_product db d1 sid now)) = products db @ [?new]"
    by (simp add: save_product_def assms(1) insert_new_product_def Let_def)
  ultimately show ?thesis
    using assms(2,3) by (simp add: find_existing_product_def)
qed

lemma upsert_existing:
  assumes found: "find_existing_product db d = Some k"
    and ok: "\<not> storage_fails 0" "\<not> storage_fails (Suc 0)"
  shows "fst (save_products storage_fails now db [d] sid) = update_existing_product db k d sid now"
  using save_products_single [OF ok] found by (simp add: save_product_def)

lemma insert_then_found:
  fixes now :: int and sid :: "nat option"
  assumes nf: "find_existing_product db d = None" and u: "truthy (get_url d)"
    and ok: "\<not> storage_fails 0" "\<not> storage_fails (Suc 0)"
  defines "db1 \<equiv> fst (save_products storage_fails now db [d] sid)"
  shows "\<exists>h. price_history_rows db1 = price_history_rows db @ [h]
           \<and> price h = get_default (get_price d) (Finite 0)"
    and "find_existing_product db1 (d\<lparr> get_price := q \<rparr>) = Some (length (products db))"
    and "current_price (products db1 ! length (products db)) = get_default (get_price d) (Finite 0)"
proof -
  have db1: "db1 = insert_new_product db d sid now"
    unfolding db1_def using save_products_single [OF ok] nf by (simp add: save_product_def)
  show "\<exists>h. price_history_rows db1 = price_history_rows db @ [h]
           \<and> price h = get_default (get_price d) (Finite 0)"
    by (simp add: db1 insert_new_product_def Let_def create_product_from_dict_def)
  have "db1 = fst (save_product db d sid now)"
    by (simp add: db1 save_product_def nf)
  with find_after_insert_url [OF nf u, of "d\<lparr> get_price := q \<rparr>" sid now]
  show "find_existing_product db1 (d\<lparr> get_price := q \<rparr>) = Some (length (products db))"
    by simp
  show "current_price (products db1 ! length (products db)) = get_default (get_price d) (Finite 0)"
    by (simp add: db1 insert_new_product_def Let_def create_product_from_dict_def)
qed

lemma find_after_insert_key:
  assumes nf: "find_existing_product db n1 = None"
    and nu: "\<not> truthy (get_url n1)" "\<not> truthy (get_url n2)"
    and key: "truthy (py_or (get_external_id n1) (get_asin n1))" "truthy (get_site n1)"
    and same: "py_or (get_external_id n2) (get_asin n2) = py_or (get_external_id n1) (get_asin n1)"
      "get_site n2 = get_site n1"
  shows "find_existing_product (fst (save_product db n1 sid now)) n2 = Some (length (products db))"
proof -
  let ?P = "\<lambda>p. external_id p = py_or (get_external_id n1) (get_asin n1) \<and> Some (site p) = get_site n1"
  from nf nu(1) key have none: "first_index ?P (products db) = None"
    by (simp add: find_existing_product_def)
  from key(2) obtain s where s: "get_site n1 = Some s"
    by (cases "get_site n1") (auto simp: truthy_def)
  let ?new = "create_product_from_dict n1 (next_id (map prod_id (products db))) now"
  have "?P ?new" by (simp add: create_product_from_dict_def s get_default_def)
  from first_index_append_new [OF none, of ?new, OF this]
  have fi: "first_index ?P (products db @ [?new]) = Some (length (products db))" .
  have "products (fst (save_product db n1 sid now)) = products db @ [?new]"
    by (simp add: save_product_def nf insert_new_product_def Let_def)
  with fi nu(2) key same show ?thesis
    by (simp add: find_existing_product_def)
qed

subsection \<open>Price changes\<close>

lemma round_cent: "round_double (1 / 100) = Finite (5764607523034235 / 2 ^ 59)"
  by code_simp

lemma round_zero: "round_double 0 = Finite 0"
  by (simp add: round_double_def)

lemma price_changed_same: "\<not> price_changed a a"
  by (cases a) (simp_all add: price_changed_def round_zero round_cent)

lemma price_changed_from_zero:
  assumes "is_double a" "dgt a (round_double (1 / 100))"
  shows "price_changed a (Finite 0)"
proof (cases a)
  case (Finite x)
  with assms(1) have r: "round_double x = Finite x" by (simp add: is_double_def)
  from assms(2) Finite have "x > 5764607523034235 / 2 ^ 59" by (simp add: round_cent)
  then have "\<bar>x\<bar> > 5764607523034235 / 2 ^ 59" by simp
  with Finite r show ?thesis by (simp add: price_changed_def round_cent)
next
  case PosInf
  then show ?thesis by (simp add: price_changed_def round_cent)
next
  case NegInf
  with assms(2) show ?thesis by (simp add: round_cent)
next
  case NaN
  with assms(2) show ?thesis by simp
qed

lemma previous_record_latest:
  assumes "previous_record db change = Some previous"
  shows "previous \<in> set (price_history_rows db)"
    and "product_id previous = product_id change"
    and "recorded_at previous \<le> recorded_at change"
    and "\<forall>h \<in> set (price_history_rows db).
           product_id h = product_id change \<and> recorded_at h \<le> recorded_at change \<longrightarrow>
           recorded_at h \<le> recorded_at previous"
proof -
  let ?xs = "filter (\<lambda>h. product_id h = product_id change \<and>
                 stored_lt_bound (recorded_at h) (recorded_at change))
               (price_history_rows db)"
  let ?f = "\<lambda>h. - recorded_at h"
  from assms obtain t where srt: "sort_key ?f ?xs = previous # t"
    by (auto simp: previous_record_def split: list.splits)
  have "set (sort_key ?f ?xs) = set ?xs" by simp
  with srt have mem: "previous \<in> set ?xs" and sub: "set ?xs = insert previous (set t)"
    by auto
  from mem show "previous \<in> set (price_history_rows db)"
    "product_id previous = product_id change" "recorded_at previous \<le> recorded_at change"
    by (auto simp: stored_lt_bound_def)
  have "sorted (map ?f (sort_key ?f ?xs))" by (rule sorted_sort_key)
  with srt have le: "\<forall>h \<in> set t. ?f previous \<le> ?f h" by simp
  show "\<forall>h \<in> set (price_history_rows db).
           product_id h = product_id change \<and> recorded_at h \<le> recorded_at change \<longrightarrow>
           recorded_at h \<le> recorded_at previous"
  proof (intro ballI impI)
    fix h assume "h \<in> set (price_history_rows db)"
      and "product_id h = product_id change \<and> recorded_at h \<le> recorded_at change"
    then have "h \<in> set ?xs" by (simp add: stored_lt_bound_def)
    with sub have "h = previous \<or> h \<in> set t" by auto
    with le show "recorded_at h \<le> recorded_at previous" by auto
  qed
qed

text \<open>A row whose second no other row of its product shares is its own previous row.\<close>

lemma previous_record_self:
  assumes mem: "change \<in> set (price_history_rows db)"
    and alone: "\<forall>h \<in> set (price_history_rows db).
        product_id h = product_id change \<and> recorded_at h = recorded_at change \<longrightarrow> h = change"
  shows "previous_record db change = Some change"
proof -
  let ?xs = "filter (\<lambda>h. product_id h = product_id change \<and>
                 stored_lt_bound (recorded_at h) (recorded_at change))
               (price_history_rows db)"
  from mem have "change \<in> set ?xs" by (simp add: stored_lt_bound_def)
  then have "set (sort_key (\<lambda>h. - recorded_at h) ?xs) \<noteq> {}" by auto
  then have "sort_key (\<lambda>h. - recorded_at h) ?xs \<noteq> []" by (simp only: set_empty) blast
  then obtain previous t where "sort_key (\<lambda>h. - recorded_at h) ?xs = previous # t"
    by (cases "sort_key (\<lambda>h. - recorded_at h) ?xs") auto
  then have pr: "previous_record db change = Some previous"
    by (simp add: previous_record_def)
  from previous_record_latest [OF pr] mem
  have "previous \<in> set (price_history_rows db)" "product_id previous = product_id change"
    "recorded_at previous = recorded_at change"
    by force+
  with alone have "previous = change" by blast
  with pr show ?thesis by simp
qed

lemma price_change_of_self:
  "previous_record db change = Some change \<Longrightarrow> price_change_of db change = []"
  by (simp add: price_change_of_def price_changed_same)

text \<open>When no two rows of a product share a second, nothing is reported.\<close>

lemma get_price_changes_nothing:
  assumes "\<forall>h \<in> set (price_history_rows db). \<forall>h' \<in> set (price_history_rows db).
      product_id h' = product_id h \<and> recorded_at h' = recorded_at h \<longrightarrow> h' = h"
  shows "get_price_changes db now hours = []"
proof -
  have "price_change_of db change = []" if "change \<in> set (price_history_rows db)" for change
    using previous_record_self [OF that] assms that price_change_of_self by blast
  then show ?thesis by (simp add: get_price_changes_def Let_def)
qed


lemma cent_comparisons:
  "price_changed (Finite 1) (round_double 1.01)"
  "\<not> price_changed (Finite 10) (round_double 10.01)"
  "price_changed (Finite 10) (Finite 12)"
  unfolding price_changed_def by code_simp+

section \<open>Properties of the scheduler\<close>

subsection \<open>One pair\<close>

lemma fold_max_ge: "a \<le> fold max ids (a::nat)"
  by (induction ids arbitrary: a) (auto intro: order_trans [OF max.cobounded2])

lemma fold_max_mem: "x \<in> set ids \<Longrightarrow> x \<le> fold max ids (a::nat)"
proof (induction ids arbitrary: a)
  case Nil
  then show ?case by simp
next
  case (Cons y ys)
  show ?case
  proof (cases "x = y")
    case True
    have "y \<le> max y a" by simp
    also have "\<dots> \<le> fold max ys (max y a)" by (rule fold_max_ge)
    finally show ?thesis using True by simp
  next
    case False
    with Cons show ?thesis by simp
  qed
qed

lemma next_id_fresh: "x \<in> set ids \<Longrightarrow> x < next_id ids"
  using fold_max_mem [of x ids 0] by (simp add: next_id_def)

lemma sessions_update_existing [simp]:
  "scraping_sessions (update_existing_product db k d sid now) = scraping_sessions db"
  by (simp add: update_existing_product_def Let_def)

lemma sessions_insert_new [simp]:
  "scraping_sessions (insert_new_product db d sid now) = scraping_sessions db"
  by (simp add: insert_new_product_def Let_def)

lemma sessions_save_product [simp]:
  "scraping_sessions (fst (save_product db d sid now)) = scraping_sessions db"
  by (simp add: save_product_def split: option.splits)

lemma sessions_fold_save:
  "scraping_sessions (fold (\<lambda>d w. fst (save_product w d sid now)) ds db) = scraping_sessions db"
  by (induction ds arbitrary: db) simp_all

lemma list_all_upto: "list_all P [0..<Suc n] \<longleftrightarrow> (\<forall>i \<le> n. P i)"
proof -
  have "set [0..<Suc n] = {i. i \<le> n}" by (auto simp del: upt_Suc)
  then show ?thesis unfolding list_all_iff by blast
qed

lemma save_products_cases:
  "(\<not> list_all (\<lambda>i. \<not> storage_fails i) [0..<Suc (length ds)] \<and>
      save_products storage_fails now db ds sid = (db, Inl SQLAlchemyError)) \<or>
   (list_all (\<lambda>i. \<not> storage_fails i) [0..<Suc (length ds)] \<and>
      (\<exists>db' saved. save_products storage_fails now db ds sid = (db', Inr saved)
         \<and> scraping_sessions db' = scraping_sessions db \<and> length saved = length ds))"
proof (cases "\<forall>i \<le> length ds. \<not> storage_fails i")
  case True
  then have "list_all (\<lambda>i. \<not> storage_fails i) [0..<Suc (length ds)]"
    unfolding list_all_upto by blast
  moreover from True save_products_outcome [of ds storage_fails now db sid]
  obtain saved where "save_products storage_fails now db ds sid =
      (fold (\<lambda>d w. fst (save_product w d sid now)) ds db, Inr saved)" "length saved = length ds"
    by blast
  ultimately show ?thesis by (auto simp: sessions_fold_save)
next
  case False
  then have "\<not> list_all (\<lambda>i. \<not> storage_fails i) [0..<Suc (length ds)]"
    unfolding list_all_upto by blast
  moreover from False save_products_outcome [of ds storage_fails now db sid]
  have "save_products storage_fails now db ds sid = (db, Inl SQLAlchemyError)" by blast
  ultimately show ?thesis by simp
qed

lemma scrape_pair_raises:
  "search_products env cfg = Inl e \<Longrightarrow> scrape_pair env cfg st = (st, Inl e)"
  by (simp add: scrape_pair_def)

lemma scrape_pair_empty:
  "search_products env cfg = Inr [] \<Longrightarrow> scrape_pair env cfg st = (st, Inr ())"
  by (simp add: scrape_pair_def)

lemma scrape_pair_create_fails:
  "search_products env cfg = Inr found \<Longrightarrow> found \<noteq> [] \<Longrightarrow> create_session_fails env cfg \<Longrightarrow>
   scrape_pair env cfg st = (st, Inl SQLAlchemyError)"
  by (simp add: scrape_pair_def create_scraping_session_def)

lemma first_index_new_session:
  "sess_id s = next_id (map sess_id ss) \<Longrightarrow>
   first_index (\<lambda>x. sess_id x = next_id (map sess_id ss)) (ss @ [s]) = Some (length ss)"
proof (rule first_index_append_new)
  show "first_index (\<lambda>x. sess_id x = next_id (map sess_id ss)) ss = None"
    using next_id_fresh [of _ "map sess_id ss"] by (fastforce simp: first_index_None)
qed

lemma scrape_pair_found:
  assumes found: "search_products env cfg = Inr found" "found \<noteq> []"
    and created: "\<not> create_session_fails env cfg"
  shows "\<exists>st' r s. scrape_pair env cfg st = (st', r)
           \<and> scraping_sessions (db_manager st') = scraping_sessions (db_manager st) @ [s]
           \<and> error_message s = None
           \<and> sess_site s = Some (cfg_site cfg)
           \<and> success s = pair_stored env cfg found
           \<and> all_products st' = all_products st @ (if pair_stored env cfg found then found else [])
           \<and> set (logger st) \<subseteq> set (logger st')"
proof -
  let ?ss = "scraping_sessions (db_manager st)"
  let ?sd = "\<lparr> get_session_name = Some (''Agendado - '' @ cfg_search cfg),
                get_session_site = Some (cfg_site cfg),
                get_search_term = Some (cfg_search cfg),
                get_filters_applied = Some [(''max_results'', cfg_max_results cfg)] \<rparr>"
  obtain db1 s where cr: "create_scraping_session (create_session_fails env cfg) (utcnow env)
        (db_manager st) ?sd = (db1, Inr s)"
    and db1: "scraping_sessions db1 = ?ss @ [s]" "products db1 = products (db_manager st)"
    and s: "sess_id s = next_id (map sess_id ?ss)" "error_message s = None"
      "sess_site s = Some (cfg_site cfg)" "success s = False"
    using created by (simp add: create_scraping_session_def Let_def)
  let ?sv = "save_products (save_fails env cfg) (utcnow env) db1 found (Some (sess_id s))"
  from save_products_cases [of "save_fails env cfg" found "utcnow env" db1 "Some (sess_id s)"]
  show ?thesis
  proof (elim disjE conjE exE)
    assume bad: "\<not> list_all (\<lambda>i. \<not> save_fails env cfg i) [0..<Suc (length found)]"
      and sv: "?sv = (db1, Inl SQLAlchemyError)"
    from bad have ns: "\<not> pair_stored env cfg found" by (simp add: pair_stored_def)
    have "scrape_pair env cfg st = (st\<lparr> db_manager := db1 \<rparr>, Inl SQLAlchemyError)"
      using found cr sv by (simp add: scrape_pair_def)
    with db1 s ns show ?thesis by simp
  next
    fix db2 saved
    assume good: "list_all (\<lambda>i. \<not> save_fails env cfg i) [0..<Suc (length found)]"
      and sv: "?sv = (db2, Inr saved)"
      and ss2: "scraping_sessions db2 = scraping_sessions db1"
      and "length saved = length found"
    let ?upd = "\<lparr> upd_products_found = Some (length found),
                   upd_products_saved = Some (length saved),
                   upd_success = Some True,
                   upd_completed_at = Some (utcnow env) \<rparr>"
    show ?thesis
    proof (cases "update_session_fails env cfg")
      case True
      with good have ns: "\<not> pair_stored env cfg found" by (simp add: pair_stored_def)
      have "update_scraping_session (update_session_fails env cfg) db2 (sess_id s) ?upd
              = (db2, Inl SQLAlchemyError)"
        using True by (simp add: update_scraping_session_def)
      then have "scrape_pair env cfg st = (st\<lparr> db_manager := db2 \<rparr>, Inl SQLAlchemyError)"
        using found cr sv by (simp add: scrape_pair_def)
      with db1 ss2 s ns show ?thesis by simp
    next
      case False
      with good created have st: "pair_stored env cfg found" by (simp add: pair_stored_def)
      have fi: "first_index (\<lambda>x. sess_id x = sess_id s) (scraping_sessions db2) = Some (length ?ss)"
        using first_index_new_session [OF s(1)] by (simp add: ss2 db1 s(1))
      obtain db3 s' where up: "update_scraping_session (update_session_fails env cfg) db2
              (sess_id s) ?upd = (db3, Inr (Some s'))"
        and db3: "scraping_sessions db3 = ?ss @ [s']"
        and s': "error_message s' = None" "sess_site s' = Some (cfg_site cfg)" "success s' = True"
        using False fi s by (simp add: update_scraping_session_def Let_def ss2 db1 get_default_def)
      have "scrape_pair env cfg st =
              (st\<lparr> db_manager := db3, all_products := all_products st @ found,
                    logger := logger st @ [PairDone cfg (length found)] \<rparr>, Inr ())"
        using found cr sv up by (simp add: scrape_pair_def)
      with db3 s' st show ?thesis by auto
    qed
  qed
qed

subsection \<open>The sweep\<close>

lemma scrape_pair_summary:
  "\<exists>st' r new. scrape_pair env cfg st = (st', r)
     \<and> scraping_sessions (db_manager st') = scraping_sessions (db_manager st) @ new
     \<and> map success new = (if records_session env cfg then [pair_success env cfg] else [])
     \<and> map error_message new = (if records_session env cfg then [None] else [])
     \<and> map sess_site new = (if records_session env cfg then [Some (cfg_site cfg)] else [])
     \<and> all_products st' = all_products st @ pair_products env cfg
     \<and> set (logger st) \<subseteq> set (logger st')
     \<and> (\<forall>e. search_products env cfg = Inl e \<longrightarrow> r = Inl e)"
proof (cases "search_products env cfg")
  case (Inl e)
  then show ?thesis
    by (simp add: scrape_pair_raises records_session_def pair_products_def)
next
  case (Inr found)
  show ?thesis
  proof (cases "found = []")
    case True
    with Inr show ?thesis
      by (simp add: scrape_pair_empty records_session_def pair_products_def)
  next
    case ne: False
    show ?thesis
    proof (cases "create_session_fails env cfg")
      case True
      with Inr ne show ?thesis
        by (simp add: scrape_pair_create_fails records_session_def pair_products_def
            pair_stored_def)
    next
      case False
      from scrape_pair_found [OF Inr ne False, of st]
      obtain st' r s where sp: "scrape_pair env cfg st = (st', r)"
        and ss: "scraping_sessions (db_manager st') = scraping_sessions (db_manager st) @ [s]"
        and s: "error_message s = None" "sess_site s = Some (cfg_site cfg)"
          "success s = pair_stored env cfg found"
        and ap: "all_products st' = all_products st @ (if pair_stored env cfg found then found else [])"
        and lg: "set (logger st) \<subseteq> set (logger st')"
        by blast
      have rs: "records_session env cfg" using Inr ne False by (simp add: records_session_def)
      have ps: "pair_success env cfg = pair_stored env cfg found"
        using Inr ne by (simp add: pair_success_def)
      have pp: "pair_products env cfg = (if pair_stored env cfg found then found else [])"
        using Inr by (simp add: pair_products_def)
      show ?thesis
        by (rule exI [of _ st'], rule exI [of _ r], rule exI [of _ "[s]"])
          (simp add: sp ss s ap lg rs ps pp Inr)
    qed
  qed
qed

lemma sweep_summary:
  "\<exists>new. scraping_sessions (db_manager (scraping_sweep env cfgs st)) =
            scraping_sessions (db_manager st) @ new
     \<and> map success new = map (pair_success env) (filter (records_session env) cfgs)
     \<and> map error_message new = map (\<lambda>c. None) (filter (records_session env) cfgs)
     \<and> map sess_site new = map (\<lambda>c. Some (cfg_site c)) (filter (records_session env) cfgs)
     \<and> all_products (scraping_sweep env cfgs st) =
         all_products st @ concat (map (pair_products env) cfgs)
     \<and> set (logger st) \<subseteq> set (logger (scraping_sweep env cfgs st))
     \<and> (\<forall>c \<in> set cfgs. \<forall>e. search_products env c = Inl e \<longrightarrow>
           PairError c e \<in> set (logger (scraping_sweep env cfgs st)))"
proof (induction cfgs arbitrary: st)
  case Nil
  show ?case by simp
next
  case (Cons cfg cfgs)
  from scrape_pair_summary [of env cfg st]
  obtain st' r new1 where sp: "scrape_pair env cfg st = (st', r)"
    and ss: "scraping_sessions (db_manager st') = scraping_sessions (db_manager st) @ new1"
    and n1: "map success new1 = (if records_session env cfg then [pair_success env cfg] else [])"
      "map error_message new1 = (if records_session env cfg then [None] else [])"
      "map sess_site new1 = (if records_session env cfg then [Some (cfg_site cfg)] else [])"
    and ap: "all_products st' = all_products st @ pair_products env cfg"
    and lg: "set (logger st) \<subseteq> set (logger st')"
    and rz: "\<forall>e. search_products env cfg = Inl e \<longrightarrow> r = Inl e"
    by blast
  define st'' where "st'' = (case r of Inl e \<Rightarrow> st'\<lparr> logger := logger st' @ [PairError cfg e] \<rparr> | Inr _ \<Rightarrow> st')"
  have step: "scraping_sweep env (cfg # cfgs) st = scraping_sweep env cfgs st''"
    by (simp add: sp st''_def split: sum.splits)
  have same: "db_manager st'' = db_manager st'" "all_products st'' = all_products st'"
    by (simp_all add: st''_def split: sum.splits)
  have lg'': "set (logger st') \<subseteq> set (logger st'')"
    by (auto simp: st''_def split: sum.splits)
  have err: "\<forall>e. search_products env cfg = Inl e \<longrightarrow> PairError cfg e \<in> set (logger st'')"
    using rz by (auto simp: st''_def)
  from Cons.IH [of st'']
  obtain new2 where
    ss2: "scraping_sessions (db_manager (scraping_sweep env cfgs st'')) =
            scraping_sessions (db_manager st'') @ new2"
    and n2: "map success new2 = map (pair_success env) (filter (records_session env) cfgs)"
      "map error_message new2 = map (\<lambda>c. None) (filter (records_session env) cfgs)"
      "map sess_site new2 = map (\<lambda>c. Some (cfg_site c)) (filter (records_session env) cfgs)"
    and ap2: "all_products (scraping_sweep env cfgs st'') =
         all_products st'' @ concat (map (pair_products env) cfgs)"
    and lg2: "set (logger st'') \<subseteq> set (logger (scraping_sweep env cfgs st''))"
    and er2: "\<forall>c \<in> set cfgs. \<forall>e. search_products env c = Inl e \<longrightarrow>
           PairError c e \<in> set (logger (scraping_sweep env cfgs st''))"
    by blast
  show ?case
  proof (rule exI [of _ "new1 @ new2"], intro conjI)
    show "scraping_sessions (db_manager (scraping_sweep env (cfg # cfgs) st)) =
            scraping_sessions (db_manager st) @ new1 @ new2"
      unfolding step by (simp add: ss2 same ss)
    show "map success (new1 @ new2) =
            map (pair_success env) (filter (records_session env) (cfg # cfgs))"
      by (simp add: n1 n2)
    show "map error_message (new1 @ new2) =
            map (\<lambda>c. None) (filter (records_session env) (cfg # cfgs))"
      by (simp add: n1 n2)
    show "map sess_site (new1 @ new2) =
            map (\<lambda>c. Some (cfg_site c)) (filter (records_session env) (cfg # cfgs))"
      by (simp add: n1 n2)
    show "all_products (scraping_sweep env (cfg # cfgs) st) =
            all_products st @ concat (map (pair_products env) (cfg # cfgs))"
      unfolding step by (simp add: ap2 same ap)
    show "set (logger st) \<subseteq> set (logger (scraping_sweep env (cfg # cfgs) st))"
      unfolding step using lg lg'' lg2 by blast
    show "\<forall>c \<in> set (cfg # cfgs). \<forall>e. search_products env c = Inl e \<longrightarrow>
           PairError c e \<in> set (logger (scraping_sweep env (cfg # cfgs) st))"
      unfolding step using err er2 lg2 by auto
  qed
qed

lemma sweep_append:
  "scraping_sweep env (xs @ ys) st = scraping_sweep env ys (scraping_sweep env xs st)"
  by (induction xs arbitrary: st) (auto split: prod.splits sum.splits)

lemma daily_job_db:
  "db_manager (daily_scraping_job env db lg) =
   db_manager (scraping_sweep env default_searches
                 \<lparr> db_manager = db, all_products = [], logger = lg @ [JobStarted] \<rparr>)"
  by (simp add: daily_scraping_job_def Let_def split: sum.splits)

subsection \<open>The concrete inputs unfolded\<close>

lemmas example_defs = example_database_def example_product_def example_listing_def
  url_only_listing_def first_record_def empty_database_def

lemmas listing_defs = other_site_def other_url_def no_url_def new_listing_def
  new_listing_elsewhere_def history_database_def second_record_def lone_record_def
  keyed_listing_def keyed_listing_again_def

section \<open>Claims about the helpers\<close>

text \<open>
  C2. Price texts with both separators: the later separator is meant to be the decimal
  one. The code rewrites the string only when the last comma comes after the last
  period; with the period last, the commas stay, \<open>float\<close> raises and the result is
  0.0. So \<open>"1.234,56"\<close>, \<open>"99,90"\<close> and \<open>"1234"\<close> give the floats 1234.56, 99.90 and
  1234.0, and \<open>"1,234.56"\<close> gives 0.0 where 1234.56 is expected.
\<close>

theorem format_price_examples:
  "format_price (Some (ascii ''1.234,56'')) = Inr (round_double 1234.56) \<and>
   format_price (Some (ascii ''1,234.56'')) = Inr (Finite 0) \<and>
   format_price (Some (ascii ''99,90'')) = Inr (round_double 99.90) \<and>
   format_price (Some (ascii ''1234'')) = Inr (round_double 1234.0)"
  by (simp add: helper_defs)

text \<open>
  C9. \<open>format_price\<close> returns a float on every input and never raises; on \<open>None\<close>,
  on the empty string, on a text without decimal digits and on a text whose cleaned
  and rewritten form \<open>float\<close> rejects, the float is 0.0, as it is for the price
  \<open>"0"\<close>.
\<close>

theorem format_price_total:
  "(\<exists>v. format_price t = Inr v) \<and>
   format_price None = Inr (Finite 0) \<and>
   format_price (Some []) = Inr (Finite 0) \<and>
   ((\<forall>c \<in> set s. \<not> is_digit c) \<longrightarrow> format_price (Some s) = Inr (Finite 0)) \<and>
   (rewrite_separators (price_clean s') = Inr u \<and> py_float u = Inl e \<longrightarrow>
      format_price (Some s') = Inr (Finite 0)) \<and>
   format_price (Some (ascii ''0'')) = Inr (Finite 0)"
proof -
  have zero: "format_price (Some (ascii ''0'')) = Inr (Finite 0)"
    by (simp add: helper_defs round_double_def)
  from format_price_returns [of t] format_price_no_digit [of s]
    format_price_unparseable [of s' u e] zero
  show ?thesis by (simp add: format_price_def)
qed

theorem format_price_total_witness:
  "list_all (\<lambda>c. \<not> is_digit c) (ascii ''R$ --'') \<and>
   format_price (Some (ascii ''R$ --'')) = Inr (Finite 0) \<and>
   rewrite_separators (price_clean (ascii ''1.2.3'')) = Inr (ascii ''1.2.3'') \<and>
   py_float (ascii ''1.2.3'') = Inl ValueError \<and>
   format_price (Some (ascii ''1.2.3'')) = Inr (Finite 0)"
proof -
  have h4: "list_all (\<lambda>c. \<not> is_digit c) (ascii ''R$ --'')"
    by (simp add: ascii_def is_digit_low)
  then have h1: "\<forall>c \<in> set (ascii ''R$ --''). \<not> is_digit c"
    by (simp only: list_all_iff)
  have h2: "rewrite_separators (price_clean (ascii ''1.2.3'')) = Inr (ascii ''1.2.3'')"
    by (simp add: rewrite_separators_def price_clean_def ascii_def is_digit_low comma_def
        period_def)
  have h3: "py_float (ascii ''1.2.3'') = Inl ValueError"
    by (simp add: py_float_def ascii_def is_digit_low period_def)
  from format_price_total [of None "ascii ''R$ --''" "ascii ''1.2.3''" "ascii ''1.2.3''"
      ValueError] h1 h2 h3 h4
  show ?thesis by blast
qed

text \<open>
  C8. The rating is read from the first numeric token of the text: decimal digits,
  then optionally a period or comma and further digits. The token is read as a float;
  a float above 5 is halved, and the result is clamped to the interval from 0 to 5;
  every rating lies in that interval. In particular \<open>"9.0"\<close> gives 4.5, \<open>"4.5"\<close>
  gives 4.5 and \<open>"12"\<close> gives 5.0.
\<close>

theorem extract_rating_leading_token:
  assumes p: "list_all (\<lambda>c. \<not> is_digit c) p"
    and ds: "ds \<noteq> []" "list_all is_digit ds"
    and fs: "list_all is_digit fs"
    and fr: "(fr = [] \<and> fs = [] \<and>
                 (rest = [] \<or> (\<not> is_digit (hd rest) \<and> hd rest \<noteq> period \<and> hd rest \<noteq> comma)))
               \<or> ((fr = period # fs \<or> fr = comma # fs) \<and>
                  (rest = [] \<or> \<not> is_digit (hd rest)))"
    and v: "v = round_double (of_nat (digits_val ds) + of_nat (digits_val fs) / 10 ^ length fs)"
  shows "extract_rating (Some (p @ ds @ fr @ rest)) =
           Inr (py_min (Finite 5) (py_max (Finite 0)
                  (if dgt v (Finite 5) then half v else v))) \<and>
         (\<exists>r. extract_rating t = Inr (Finite r) \<and> 0 \<le> r \<and> r \<le> 5) \<and>
         extract_rating (Some (ascii ''9.0'')) = Inr (Finite 4.5) \<and>
         extract_rating (Some (ascii ''4.5'')) = Inr (Finite 4.5) \<and>
         extract_rating (Some (ascii ''12'')) = Inr (Finite 5.0)"
proof -
  let ?goal = "extract_rating (Some (p @ ds @ fr @ rest)) =
           Inr (py_min (Finite 5) (py_max (Finite 0)
                  (if dgt v (Finite 5) then half v else v)))"
  from fr consider
      (int) "fr = []" "fs = []"
        "rest = [] \<or> (\<not> is_digit (hd rest) \<and> hd rest \<noteq> period \<and> hd rest \<noteq> comma)"
    | (dot) "fr = period # fs" "rest = [] \<or> \<not> is_digit (hd rest)"
    | (comma) "fr = comma # fs" "rest = [] \<or> \<not> is_digit (hd rest)"
    by blast
  then have main: ?goal
  proof cases
    case int
    with extract_rating_int [OF p ds, of rest v] v show ?thesis
      by (simp add: digits_val_def)
  next
    case dot
    with extract_rating_sep [OF p ds _ fs, of period rest v] v show ?thesis by simp
  next
    case comma
    with extract_rating_sep [OF p ds _ fs, of comma rest v] v show ?thesis by simp
  qed
  have range: "\<exists>r. extract_rating t = Inr (Finite r) \<and> 0 \<le> r \<and> r \<le> 5"
    by (rule extract_rating_range)
  from main range rating_examples show ?thesis by blast
qed

theorem extract_rating_leading_token_witness:
  "list_all (\<lambda>c. \<not> is_digit c) (ascii ''Nota '') \<and> list_all is_digit (ascii ''9'') \<and>
   list_all is_digit (ascii ''0'') \<and> \<not> is_digit (hd (ascii '' de 10'')) \<and>
   Finite 9 = round_double (of_nat (digits_val (ascii ''9'')) +
                of_nat (digits_val (ascii ''0'')) / 10 ^ length (ascii ''0'')) \<and>
   extract_rating (Some (ascii ''Nota 9.0 de 10'')) = Inr (Finite 4.5)"
proof -
  have h1: "list_all (\<lambda>c. \<not> is_digit c) (ascii ''Nota '')" by (simp add: ascii_def is_digit_low)
  have h2: "ascii ''9'' \<noteq> []" "list_all is_digit (ascii ''9'')"
    by (simp_all add: ascii_def is_digit_low)
  have h3: "list_all is_digit (ascii ''0'')" by (simp add: ascii_def is_digit_low)
  have h4: "\<not> is_digit (hd (ascii '' de 10''))" by (simp add: ascii_def is_digit_low)
  then have h5: "(period # ascii ''0'' = [] \<and> ascii ''0'' = [] \<and>
                 (ascii '' de 10'' = [] \<or> (\<not> is_digit (hd (ascii '' de 10'')) \<and>
                    hd (ascii '' de 10'') \<noteq> period \<and> hd (ascii '' de 10'') \<noteq> comma)))
               \<or> ((period # ascii ''0'' = period # ascii ''0'' \<or>
                    period # ascii ''0'' = comma # ascii ''0'') \<and>
                  (ascii '' de 10'' = [] \<or> \<not> is_digit (hd (ascii '' de 10''))))" by simp
  have h6: "Finite 9 = round_double (of_nat (digits_val (ascii ''9'')) +
                of_nat (digits_val (ascii ''0'')) / 10 ^ length (ascii ''0''))"
    by (simp add: digits_val_def digit_val_low ascii_def round_small)
  have whole: "ascii ''Nota '' @ ascii ''9'' @ (period # ascii ''0'') @ ascii '' de 10'' =
             ascii ''Nota 9.0 de 10''"
    by (simp add: ascii_def period_def)
  have val: "py_min (Finite 5) (py_max (Finite 0)
                  (if dgt (Finite 9) (Finite 5) then half (Finite 9) else Finite 9)) = Finite 4.5"
    by (simp add: py_min_def py_max_def dlt_def round_small)
  from extract_rating_leading_token [OF h1 h2 h3 h5 h6, of None]
  have "extract_rating (Some (ascii ''Nota 9.0 de 10'')) = Inr (Finite 4.5)"
    unfolding whole val by blast
  with h1 h2 h3 h4 h6 show ?thesis by blast
qed

section \<open>Claims about the database manager\<close>


text \<open>
  C3. The url is looked up first: a record with a url that is stored resolves to the
  first product with that url, whatever its site and identifier. Only when the url is
  absent or not stored, and both the identifier and the site are present, is the pair
  of identifier and site looked up; otherwise the record is new. So two records with
  the same stored url resolve to the same product, two records with the same
  identifier and site and no url match resolve alike, and a record saved as new is
  what the next record with its url, or with its identifier and site, resolves to.
\<close>

theorem find_existing_product_identity:
  "(truthy (get_url d) \<and> first_index (\<lambda>p. Some (url p) = get_url d) (products db) = Some k \<longrightarrow>
      find_existing_product db d = Some k) \<and>
   ((\<not> truthy (get_url e) \<or> (\<forall>p \<in> set (products db). Some (url p) \<noteq> get_url e)) \<longrightarrow>
      find_existing_product db e =
        (if truthy (py_or (get_external_id e) (get_asin e)) \<and> truthy (get_site e)
         then first_index (\<lambda>p. external_id p = py_or (get_external_id e) (get_asin e)
                             \<and> Some (site p) = get_site e) (products db)
         else None)) \<and>
   (get_url d1 = get_url d2 \<and> truthy (get_url d1) \<and>
    (\<exists>p \<in> set (products db). Some (url p) = get_url d1) \<longrightarrow>
      find_existing_product db d1 = find_existing_product db d2 \<and>
      find_existing_product db d1 \<noteq> None) \<and>
   (py_or (get_external_id e1) (get_asin e1) = py_or (get_external_id e2) (get_asin e2) \<and>
    get_site e1 = get_site e2 \<and>
    (\<not> truthy (get_url e1) \<or> (\<forall>p \<in> set (products db). Some (url p) \<noteq> get_url e1)) \<and>
    (\<not> truthy (get_url e2) \<or> (\<forall>p \<in> set (products db). Some (url p) \<noteq> get_url e2)) \<longrightarrow>
      find_existing_product db e1 = find_existing_product db e2) \<and>
   (find_existing_product db n1 = None \<and> truthy (get_url n1) \<and> get_url n2 = get_url n1 \<longrightarrow>
      find_existing_product (fst (save_product db n1 sid now)) n2 = Some (length (products db))) \<and>
   (find_existing_product db m1 = None \<and> \<not> truthy (get_url m1) \<and> \<not> truthy (get_url m2) \<and>
    truthy (py_or (get_external_id m1) (get_asin m1)) \<and> truthy (get_site m1) \<and>
    py_or (get_external_id m2) (get_asin m2) = py_or (get_external_id m1) (get_asin m1) \<and>
    get_site m2 = get_site m1 \<longrightarrow>
      find_existing_product (fst (save_product db m1 sid now)) m2 = Some (length (products db)))"
  using find_by_url [of d db k] find_by_key [of e db] find_same_url [of d1 d2 db]
    find_same_key [of e1 e2 db] find_after_insert_url [of db n1 n2 sid now]
    find_after_insert_key [of db m1 m2 sid now]
  by blast

theorem find_existing_product_identity_witness:
  "find_existing_product history_database other_site = Some 0 \<and>
   find_existing_product history_database example_listing = Some 0 \<and>
   find_existing_product history_database other_url = Some 1 \<and>
   find_existing_product history_database no_url = Some 1 \<and>
   find_existing_product history_database new_listing = None \<and>
   find_existing_product (fst (save_product history_database new_listing None 300))
      new_listing_elsewhere = Some 2 \<and>
   find_existing_product history_database keyed_listing = None \<and>
   find_existing_product (fst (save_product history_database keyed_listing None 300))
      keyed_listing_again = Some 2"
proof -
  have h1: "truthy (get_url other_site)"
    "first_index (\<lambda>p. Some (url p) = get_url other_site) (products history_database) = Some 0"
    by (simp_all add: truthy_def listing_defs example_defs)
  have h2: "\<not> truthy (get_url other_url) \<or>
      (\<forall>p \<in> set (products history_database). Some (url p) \<noteq> get_url other_url)"
    by (simp add: listing_defs example_defs)
  have h3: "get_url example_listing = get_url other_site" "truthy (get_url example_listing)"
    "\<exists>p \<in> set (products history_database). Some (url p) = get_url example_listing"
    by (simp_all add: truthy_def listing_defs example_defs)
  have h4: "py_or (get_external_id other_url) (get_asin other_url) =
            py_or (get_external_id no_url) (get_asin no_url)"
    "get_site other_url = get_site no_url"
    "\<not> truthy (get_url no_url) \<or>
      (\<forall>p \<in> set (products history_database). Some (url p) \<noteq> get_url no_url)"
    by (simp_all add: truthy_def py_or_def listing_defs example_defs)
  have h5: "find_existing_product history_database new_listing = None"
    "truthy (get_url new_listing)" "get_url new_listing_elsewhere = get_url new_listing"
    by (simp_all add: find_existing_product_def truthy_def py_or_def listing_defs example_defs)
  have h6: "find_existing_product history_database keyed_listing = None"
    "\<not> truthy (get_url keyed_listing)" "\<not> truthy (get_url keyed_listing_again)"
    "truthy (py_or (get_external_id keyed_listing) (get_asin keyed_listing))"
    "truthy (get_site keyed_listing)"
    "py_or (get_external_id keyed_listing_again) (get_asin keyed_listing_again) =
       py_or (get_external_id keyed_listing) (get_asin keyed_listing)"
    "get_site keyed_listing_again = get_site keyed_listing"
    by (simp_all add: find_existing_product_def truthy_def py_or_def listing_defs example_defs)
  have key: "(if truthy (py_or (get_external_id other_url) (get_asin other_url)) \<and>
                 truthy (get_site other_url)
         then first_index (\<lambda>p. external_id p = py_or (get_external_id other_url) (get_asin other_url)
                             \<and> Some (site p) = get_site other_url) (products history_database)
         else None) = Some 1"
    by (simp add: truthy_def py_or_def listing_defs example_defs)
  have len: "length (products history_database) = 2" by (simp add: listing_defs)
  note t = find_existing_product_identity [where db = history_database and d = other_site
      and k = 0 and e = other_url and ?d1.0 = example_listing and ?d2.0 = other_site
      and ?e1.0 = other_url and ?e2.0 = no_url and ?n1.0 = new_listing
      and ?n2.0 = new_listing_elsewhere and ?m1.0 = keyed_listing
      and ?m2.0 = keyed_listing_again and sid = None and now = 300]
  from t h1 have c1: "find_existing_product history_database other_site = Some 0" by blast
  from t h3 have "find_existing_product history_database example_listing =
      find_existing_product history_database other_site" by blast
  with c1 have c2: "find_existing_product history_database example_listing = Some 0" by simp
  from t h2 have "find_existing_product history_database other_url =
        (if truthy (py_or (get_external_id other_url) (get_asin other_url)) \<and>
                 truthy (get_site other_url)
         then first_index (\<lambda>p. external_id p = py_or (get_external_id other_url) (get_asin other_url)
                             \<and> Some (site p) = get_site other_url) (products history_database)
         else None)" by blast
  with key have c3: "find_existing_product history_database other_url = Some 1" by (simp only:)
  from t h2 h4 have "find_existing_product history_database other_url =
      find_existing_product history_database no_url" by blast
  with c3 have c4: "find_existing_product history_database no_url = Some 1" by simp
  from t h5 have "find_existing_product
      (fst (save_product history_database new_listing None 300)) new_listing_elsewhere =
        Some (length (products history_database))" by blast
  with len have c5: "find_existing_product
      (fst (save_product history_database new_listing None 300)) new_listing_elsewhere = Some 2"
    by simp
  from t h6 have "find_existing_product
      (fst (save_product history_database keyed_listing None 300)) keyed_listing_again =
        Some (length (products history_database))" by blast
  with len have c6: "find_existing_product
      (fst (save_product history_database keyed_listing None 300)) keyed_listing_again = Some 2"
    by simp
  from c1 c2 c3 c4 h5(1) c5 h6(1) c6 show ?thesis by blast
qed

text \<open>
  C4. A change is meant to be reported when a strictly earlier record of the product
  has another price. On the SQLite database a stored \<open>recorded_at\<close> is below the bound
  form of itself, so the previous row of a record is that record whenever no other
  row of the product shares its second. With a record of 10 at second 100 and one of
  12 at second 200, of one product and in the window, nothing is reported.
\<close>

theorem price_change_not_reported:
  "price_history_rows history_database = [first_record, second_record, lone_record] \<and>
   product_id first_record = product_id second_record \<and>
   recorded_at first_record < recorded_at second_record \<and>
   price_changed (price first_record) (price second_record) \<and>
   stored_ge_bound (recorded_at second_record) (250 - 1 * 3600) \<and>
   previous_record history_database second_record = Some second_record \<and>
   get_price_changes history_database 250 1 = []"
proof -
  have rows: "price_history_rows history_database = [first_record, second_record, lone_record]"
    by (simp add: history_database_def)
  have facts: "product_id first_record = product_id second_record"
    "recorded_at first_record < recorded_at second_record"
    "stored_ge_bound (recorded_at second_record) (250 - 1 * 3600)"
    by (simp_all add: first_record_def second_record_def stored_ge_bound_def stored_lt_bound_def)
  have ch: "price_changed (price first_record) (price second_record)"
    using cent_comparisons(3) by (simp add: first_record_def second_record_def)
  have alone: "\<forall>h \<in> set (price_history_rows history_database).
      \<forall>h' \<in> set (price_history_rows history_database).
      product_id h' = product_id h \<and> recorded_at h' = recorded_at h \<longrightarrow> h' = h"
    by (simp add: rows first_record_def second_record_def lone_record_def)
  have self: "previous_record history_database second_record = Some second_record"
    by (rule previous_record_self) (use alone in \<open>simp_all add: rows\<close>)
  from get_price_changes_nothing [OF alone] rows facts ch self show ?thesis by simp
qed

text \<open>
  C5. A batch is saved as a whole or not at all: if the storage layer raises while any
  listing is processed or at the commit, the database is left as it was and the
  caller gets the storage error; otherwise the database holds the effect of every
  listing of the batch, in order, and every listing is returned as saved.
\<close>

theorem save_products_atomic:
  "((\<exists>i \<le> length products_data. storage_fails i) \<longrightarrow>
      save_products storage_fails now db products_data sid = (db, Inl SQLAlchemyError)) \<and>
   ((\<forall>i \<le> length products_data. \<not> storage_fails i) \<longrightarrow>
      (\<exists>saved. save_products storage_fails now db products_data sid =
          (fold (\<lambda>d w. fst (save_product w d sid now)) products_data db, Inr saved)
        \<and> length saved = length products_data))"
  by (rule save_products_outcome)

theorem save_products_atomic_witness:
  "save_products (\<lambda>i. i = 1) 200 example_database
      [example_listing\<lparr> get_price := Some (Finite 12) \<rparr>, url_only_listing] None
     = (example_database, Inl SQLAlchemyError) \<and>
   price_history_rows
     (fst (save_products (\<lambda>i. False) 200 example_database
        [example_listing\<lparr> get_price := Some (Finite 12) \<rparr>, url_only_listing] None))
     = price_history_rows
         (fold (\<lambda>d w. fst (save_product w d None 200))
            [example_listing\<lparr> get_price := Some (Finite 12) \<rparr>, url_only_listing] example_database)"
proof -
  have f: "\<exists>i \<le> length [example_listing\<lparr> get_price := Some (Finite 12) \<rparr>, url_only_listing].
             (\<lambda>i. i = 1) i" by auto
  have g: "\<forall>i \<le> length [example_listing\<lparr> get_price := Some (Finite 12) \<rparr>, url_only_listing].
             \<not> (\<lambda>i. False) i" by simp
  from save_products_atomic [of "[example_listing\<lparr> get_price := Some (Finite 12) \<rparr>, url_only_listing]"
      "\<lambda>i. i = 1" 200 example_database None] f
    save_products_atomic [of "[example_listing\<lparr> get_price := Some (Finite 12) \<rparr>, url_only_listing]"
      "\<lambda>i. False" 200 example_database None] g
  show ?thesis by auto
qed

text \<open>
  C10. When a listing without a price resolves to a stored product, the stored price
  becomes 0, and if the stored price, a double, was above 0.01 a price record with
  price 0 is appended for that product. An absent original price clears the stored
  one, while an absent title, rating, number of reviews, stock flag or shipping flag
  leaves the stored value as it was.
\<close>

theorem update_without_price:
  assumes found: "find_existing_product db d = Some k"
    and ok: "\<not> storage_fails 0" "\<not> storage_fails (Suc 0)"
  shows "let p = products db ! k;
             db' = fst (save_products storage_fails now db [d] sid);
             p' = products db' ! k
         in (get_price d = None \<longrightarrow>
               current_price p' = Finite 0 \<and>
               (is_double (current_price p) \<and>
                dgt (current_price p) (round_double (1 / 100)) \<longrightarrow>
                  (\<exists>h. price_history_rows db' = price_history_rows db @ [h] \<and>
                       price h = Finite 0 \<and> product_id h = prod_id p))) \<and>
            (get_original_price d = None \<longrightarrow> original_price p' = None) \<and>
            (get_title d = None \<longrightarrow> title p' = title p) \<and>
            (get_rating d = None \<longrightarrow> rating p' = rating p) \<and>
            (get_num_reviews d = None \<longrightarrow> num_reviews p' = num_reviews p) \<and>
            (get_in_stock d = None \<longrightarrow> in_stock p' = in_stock p) \<and>
            (get_free_shipping d = None \<longrightarrow> free_shipping p' = free_shipping p)"
proof -
  let ?p = "products db ! k"
  let ?db' = "fst (save_products storage_fails now db [d] sid)"
  have eq: "?db' = update_existing_product db k d sid now"
    by (rule upsert_existing [OF found ok])
  have k: "k < length (products db)" by (rule find_existing_product_less [OF found])
  have fields: "current_price (products ?db' ! k) = get_default (get_price d) (Finite 0)"
    "original_price (products ?db' ! k) = get_original_price d"
    "title (products ?db' ! k) = get_default (get_title d) (title ?p)"
    "rating (products ?db' ! k) = get_default (get_rating d) (rating ?p)"
    "num_reviews (products ?db' ! k) = get_default (get_num_reviews d) (num_reviews ?p)"
    "in_stock (products ?db' ! k) = get_default (get_in_stock d) (in_stock ?p)"
    "free_shipping (products ?db' ! k) = get_default (get_free_shipping d) (free_shipping ?p)"
    using k by (simp_all add: eq update_products)
  have drop: "get_price d = None \<Longrightarrow> is_double (current_price ?p) \<Longrightarrow>
      dgt (current_price ?p) (round_double (1 / 100)) \<Longrightarrow>
      \<exists>h. price_history_rows ?db' = price_history_rows db @ [h] \<and>
           price h = Finite 0 \<and> product_id h = prod_id ?p"
  proof -
    assume np: "get_price d = None" and dbl: "is_double (current_price ?p)"
      and gt: "dgt (current_price ?p) (round_double (1 / 100))"
    from price_changed_from_zero [OF dbl gt] np
    have "price_changed (current_price ?p) (get_default (get_price d) (Finite 0))"
      by (simp add: get_default_def)
    from update_rows_changed [OF this, of sid now] np show ?thesis
      by (simp add: eq get_default_def)
  qed
  show ?thesis
    unfolding Let_def using fields drop by (simp add: get_default_def)
qed

theorem update_without_price_witness:
  "find_existing_product example_database url_only_listing = Some 0 \<and>
   get_price url_only_listing = None \<and>
   current_price (products example_database ! 0) = Finite 10 \<and>
   is_double (Finite 10) \<and> dgt (Finite 10) (round_double (1 / 100)) \<and>
   current_price (products (fst (save_products (\<lambda>i. False) 200 example_database
      [url_only_listing] None)) ! 0) = Finite 0 \<and>
   title (products (fst (save_products (\<lambda>i. False) 200 example_database
      [url_only_listing] None)) ! 0) = ''Notebook'' \<and>
   length (price_history_rows (fst (save_products (\<lambda>i. False) 200 example_database
      [url_only_listing] None))) = 2"
proof -
  have f: "find_existing_product example_database url_only_listing = Some 0"
    by (simp add: find_existing_product_def example_defs truthy_def py_or_def)
  have ok: "\<not> (\<lambda>i::nat. False) 0" "\<not> (\<lambda>i::nat. False) (Suc 0)" by simp_all
  have g: "get_price url_only_listing = None" "get_title url_only_listing = None"
    and old: "current_price (products example_database ! 0) = Finite 10"
      "title (products example_database ! 0) = ''Notebook''"
    and rows: "price_history_rows example_database = [first_record]"
    by (simp_all add: example_defs)
  have dbl: "is_double (Finite 10)" unfolding is_double_def by code_simp
  have gt: "dgt (Finite 10) (round_double (1 / 100))" by (simp add: round_cent)
  from update_without_price [OF f ok, of 200 None] g old rows dbl gt
  show ?thesis using f by (auto simp: Let_def)
qed

section \<open>Claims about the scheduler\<close>

text \<open>
  C6, as the code has it. The daily job records one session for each pair whose
  adapter returned products and whose session row was inserted, in the order of the
  sweep and under the site of the pair; a pair whose adapter raised or found nothing
  records none. A recorded session has its success flag set exactly when the products
  were saved and the session was updated, and no session carries an error message.
\<close>

theorem daily_job_sessions:
  "\<exists>new. scraping_sessions (db_manager (daily_scraping_job env db lg)) =
            scraping_sessions db @ new \<and>
     map sess_site new = map (\<lambda>c. Some (cfg_site c)) (filter (records_session env) default_searches) \<and>
     map success new = map (pair_success env) (filter (records_session env) default_searches) \<and>
     map error_message new = map (\<lambda>c. None) (filter (records_session env) default_searches)"
proof -
  from sweep_summary [of env default_searches
      "\<lparr> db_manager = db, all_products = [], logger = lg @ [JobStarted] \<rparr>"]
  obtain new where
    "scraping_sessions (db_manager (scraping_sweep env default_searches
        \<lparr> db_manager = db, all_products = [], logger = lg @ [JobStarted] \<rparr>)) =
       scraping_sessions db @ new"
    "map success new = map (pair_success env) (filter (records_session env) default_searches)"
    "map error_message new = map (\<lambda>c. None) (filter (records_session env) default_searches)"
    "map sess_site new = map (\<lambda>c. Some (cfg_site c)) (filter (records_session env) default_searches)"
    by auto
  then show ?thesis unfolding daily_job_db by blast
qed

theorem daily_job_sessions_witness:
  "map sess_site (scraping_sessions (db_manager (daily_scraping_job mixed_env empty_database []))) =
     [Some ''mercadolivre'', Some ''ebay''] \<and>
   map success (scraping_sessions (db_manager (daily_scraping_job mixed_env empty_database []))) =
     [True, True] \<and>
   map error_message (scraping_sessions (db_manager (daily_scraping_job mixed_env empty_database []))) =
     [None, None]"
proof -
  have f: "filter (records_session mixed_env) default_searches = tl default_searches"
    by (simp add: default_searches_def records_session_def mixed_env_def raising_env_def)
  have s: "map (pair_success mixed_env) (tl default_searches) = [True, True]"
    by (simp add: default_searches_def pair_success_def pair_stored_def mixed_env_def
        raising_env_def)
  have n: "map (\<lambda>c. Some (cfg_site c)) (tl default_searches) = [Some ''mercadolivre'', Some ''ebay'']"
    "map (\<lambda>c. None :: string option) (tl default_searches) = [None, None]"
    by (simp_all add: default_searches_def)
  have e: "scraping_sessions empty_database = []" by (simp add: empty_database_def)
  from daily_job_sessions [of mixed_env empty_database "[]"] show ?thesis
    unfolding f s n e by auto
qed

text \<open>
  C6, as stated, fails: when every adapter raises the job records no session and
  leaves the database as a run in which every adapter finds nothing leaves it, and
  when every adapter finds a listing it records three sessions.
\<close>

theorem daily_job_sessions_counterexample:
  "scraping_sessions (db_manager (daily_scraping_job raising_env empty_database [])) = [] \<and>
   db_manager (daily_scraping_job raising_env empty_database []) =
     db_manager (daily_scraping_job empty_env empty_database []) \<and>
   length (scraping_sessions (db_manager (daily_scraping_job found_env empty_database []))) = 3"
proof -
  have r: "db_manager (daily_scraping_job raising_env empty_database []) = empty_database"
    unfolding daily_job_db
    by (simp add: default_searches_def scrape_pair_def raising_env_def)
  have m: "db_manager (daily_scraping_job empty_env empty_database []) = empty_database"
    unfolding daily_job_db
    by (simp add: default_searches_def scrape_pair_def empty_env_def raising_env_def)
  have f: "filter (records_session found_env) default_searches = default_searches"
    by (simp add: default_searches_def records_session_def found_env_def raising_env_def
        example_listing_def)
  from sweep_summary [of found_env default_searches
      "\<lparr> db_manager = empty_database, all_products = [], logger = [] @ [JobStarted] \<rparr>"]
  obtain new where n: "scraping_sessions (db_manager (daily_scraping_job found_env empty_database [])) =
       scraping_sessions empty_database @ new"
    "map error_message new = map (\<lambda>c. None) (filter (records_session found_env) default_searches)"
    unfolding daily_job_db by auto
  from n(2) have "length new = 3"
    unfolding f by (metis length_map default_searches_def length_Cons list.size(3) numeral_3_eq_3)
  with n(1) have c: "length (scraping_sessions (db_manager (daily_scraping_job found_env empty_database []))) = 3"
    by (simp add: empty_database_def)
  from r m c show ?thesis by (simp add: empty_database_def)
qed

text \<open>
  C7. An exception that escapes the processing of one pair is logged and the sweep
  goes on with the pairs after it. Whatever happens to the other pairs, the products
  handed to the report are those of every pair that was scraped and stored, in the
  order of the sweep, and a pair whose adapter raises leaves its error in the log.
\<close>

theorem sweep_isolates_failures:
  "(scrape_pair env cfg (scraping_sweep env before st) = (st', Inl e) \<longrightarrow>
      scraping_sweep env (before @ cfg # after) st =
        scraping_sweep env after (st'\<lparr> logger := logger st' @ [PairError cfg e] \<rparr>)) \<and>
   all_products (scraping_sweep env cfgs st) =
     all_products st @ concat (map (pair_products env) cfgs) \<and>
   (c \<in> set cfgs \<and> search_products env c = Inl x \<longrightarrow>
      PairError c x \<in> set (logger (scraping_sweep env cfgs st)))"
proof (intro conjI impI)
  assume "scrape_pair env cfg (scraping_sweep env before st) = (st', Inl e)"
  then show "scraping_sweep env (before @ cfg # after) st =
        scraping_sweep env after (st'\<lparr> logger := logger st' @ [PairError cfg e] \<rparr>)"
    by (simp add: sweep_append)
next
  from sweep_summary [of env cfgs st]
  show "all_products (scraping_sweep env cfgs st) =
     all_products st @ concat (map (pair_products env) cfgs)" by blast
next
  assume "c \<in> set cfgs \<and> search_products env c = Inl x"
  with sweep_summary [of env cfgs st]
  show "PairError c x \<in> set (logger (scraping_sweep env cfgs st))" by blast
qed

theorem sweep_isolates_failures_witness:
  "scrape_pair mixed_env amazon_search initial_state =
     (initial_state, Inl (OtherException ''timeout'')) \<and>
   scraping_sweep mixed_env default_searches initial_state =
     scraping_sweep mixed_env (tl default_searches)
       (initial_state\<lparr> logger := [PairError amazon_search (OtherException ''timeout'')] \<rparr>) \<and>
   all_products (scraping_sweep mixed_env default_searches initial_state) =
     [example_listing, example_listing] \<and>
   PairError amazon_search (OtherException ''timeout'')
     \<in> set (logger (scraping_sweep mixed_env default_searches initial_state))"
proof -
  have r: "search_products mixed_env amazon_search = Inl (OtherException ''timeout'')"
    by (simp add: mixed_env_def raising_env_def amazon_search_def)
  have h1: "scrape_pair mixed_env amazon_search (scraping_sweep mixed_env [] initial_state) =
     (initial_state, Inl (OtherException ''timeout''))"
    using scrape_pair_raises [OF r] by simp
  have ds: "default_searches = [] @ amazon_search # tl default_searches"
    by (simp add: default_searches_def amazon_search_def)
  have ds': "amazon_search # tl default_searches = default_searches"
    by (simp add: default_searches_def amazon_search_def)
  have mem: "amazon_search \<in> set default_searches"
    by (simp add: default_searches_def amazon_search_def)
  have pp: "concat (map (pair_products mixed_env) default_searches) =
      [example_listing, example_listing]"
    by (simp add: default_searches_def pair_products_def pair_stored_def mixed_env_def
        raising_env_def)
  have lg: "logger initial_state = []" "all_products initial_state = []"
    by (simp_all add: initial_state_def)
  note t = sweep_isolates_failures [where env = mixed_env and cfg = amazon_search
      and before = "[]" and st = initial_state and st' = initial_state
      and e = "OtherException ''timeout''" and after = "tl default_searches"
      and cfgs = default_searches and c = amazon_search and x = "OtherException ''timeout''"]
  from t h1 have c1: "scraping_sweep mixed_env ([] @ amazon_search # tl default_searches) initial_state =
     scraping_sweep mixed_env (tl default_searches)
       (initial_state\<lparr> logger := logger initial_state @ [PairError amazon_search (OtherException ''timeout'')] \<rparr>)"
    by blast
  from t have "all_products (scraping_sweep mixed_env default_searches initial_state) =
     all_products initial_state @ concat (map (pair_products mixed_env) default_searches)"
    by blast
  with pp lg have c2: "all_products (scraping_sweep mixed_env default_searches initial_state) =
     [example_listing, example_listing]" by simp
  from t mem r have c3: "PairError amazon_search (OtherException ''timeout'')
     \<in> set (logger (scraping_sweep mixed_env default_searches initial_state))" by blast
  from h1 have c0: "scrape_pair mixed_env amazon_search initial_state =
     (initial_state, Inl (OtherException ''timeout''))" by simp
  have c1': "scraping_sweep mixed_env default_searches initial_state =
     scraping_sweep mixed_env (tl default_searches)
       (initial_state\<lparr> logger := [PairError amazon_search (OtherException ''timeout'')] \<rparr>)"
    using c1 [unfolded append_Nil lg ds'] .
  from c0 c1' c2 c3 show ?thesis by blast
qed

end
